theory Spec2Isabelle
  imports Main "HOL-Library.Word" "HOL-Library.Signed_Division" "HOL-Library.Stream"
begin

unbundle bit_operations_syntax

section \<open>The streaming engine of SoapyBladeRF (bladeRF_Streaming.cpp)\<close>

text \<open>
  The C++ integer types are words of their width on an LP64 host: \<open>int\<close> and
  \<open>unsigned int\<close> are 32 bits, \<open>long\<close>, \<open>long long\<close>, \<open>size_t\<close> and
  \<open>uint64_t\<close> are 64 bits, \<open>int16_t\<close> is 16 bits. A word carries the bits; \<open>sint\<close>
  reads it as the signed type does, \<open>uint\<close> as the unsigned one.
\<close>

type_synonym c_int = "32 word"
type_synonym c_uint = "32 word"
type_synonym c_long = "64 word"
type_synonym c_size_t = "64 word"
type_synonym c_int16 = "16 word"

text \<open>Signed division and remainder of C++11: the quotient is truncated towards zero.\<close>

definition c_div :: "'a::len word \<Rightarrow> 'a word \<Rightarrow> 'a word" where
  "c_div a b = word_of_int (sint a sdiv sint b)"

definition c_mod :: "'a::len word \<Rightarrow> 'a word \<Rightarrow> 'a word" where
  "c_mod a b = word_of_int (sint a smod sint b)"

text \<open>Signed comparison \<open>a > b\<close> of two \<open>int\<close>s.\<close>

definition c_gt :: "'a::len word \<Rightarrow> 'a word \<Rightarrow> bool" where
  "c_gt a b = (sint b < sint a)"

subsection \<open>Constants\<close>

text \<open>The two macros at the head of the file (lines 26 and 27).\<close>

definition DEF_NUM_BUFFS :: c_int where "DEF_NUM_BUFFS = 32"
definition DEF_BUFF_LEN :: c_int where "DEF_BUFF_LEN = 4096"

text \<open>
  Constants of the two libraries the file is written against, with the values of their
  public headers (SoapySDR/Constants.h, SoapySDR/Errors.h and libbladeRF.h).
\<close>

definition SOAPY_SDR_TX :: c_int where "SOAPY_SDR_TX = 0"
definition SOAPY_SDR_RX :: c_int where "SOAPY_SDR_RX = 1"
definition SOAPY_SDR_END_BURST :: c_int where "SOAPY_SDR_END_BURST = 2"
definition SOAPY_SDR_HAS_TIME :: c_int where "SOAPY_SDR_HAS_TIME = 4"
definition SOAPY_SDR_TIMEOUT :: c_int where "SOAPY_SDR_TIMEOUT = - 1"
definition SOAPY_SDR_STREAM_ERROR :: c_int where "SOAPY_SDR_STREAM_ERROR = - 2"
definition SOAPY_SDR_OVERFLOW :: c_int where "SOAPY_SDR_OVERFLOW = - 4"
definition SOAPY_SDR_NOT_SUPPORTED :: c_int where "SOAPY_SDR_NOT_SUPPORTED = - 5"
definition SOAPY_SDR_UNDERFLOW :: c_int where "SOAPY_SDR_UNDERFLOW = - 7"

definition BLADERF_ERR_TIMEOUT :: c_int where "BLADERF_ERR_TIMEOUT = - 6"
definition BLADERF_META_FLAG_TX_BURST_START :: c_uint where "BLADERF_META_FLAG_TX_BURST_START = 1"
definition BLADERF_META_FLAG_TX_BURST_END :: c_uint where "BLADERF_META_FLAG_TX_BURST_END = 2"
definition BLADERF_META_FLAG_TX_NOW :: c_uint where "BLADERF_META_FLAG_TX_NOW = 4"
definition BLADERF_META_FLAG_RX_NOW :: c_uint where "BLADERF_META_FLAG_RX_NOW = push_bit 31 1"
definition BLADERF_META_STATUS_OVERRUN :: c_uint where "BLADERF_META_STATUS_OVERRUN = 1"
definition BLADERF_META_STATUS_UNDERRUN :: c_uint where "BLADERF_META_STATUS_UNDERRUN = 2"

subsection \<open>Data\<close>

text \<open>
  Modelled from the spec: the declaration of \<open>rxStreamCmd\<close> (in bladeRF_SoapySDR.hpp) is
  missing. A queued receive command has a flag set, a start time in nanoseconds and an
  element count, where 0 means unbounded: the three fields \<open>activateStream\<close> fills from
  its \<open>int\<close>, \<open>long long\<close> and \<open>size_t\<close> arguments.
\<close>

record rxStreamCmd =
  cmd_flags :: c_int
  cmd_timeNs :: c_long
  cmd_numElems :: c_size_t

text \<open>
  A sample buffer is a block of raw memory, read here in units of 16 bits by element
  index. Its capacity is declared outside this file and is not modelled: an index is
  never out of range here. A \<open>float\<close> takes the place of two consecutive 16-bit units.
\<close>

type_synonym memory = "nat \<Rightarrow> c_int16"

text \<open>
  Modelled from the spec: the declaration of the class \<open>bladeRF_SoapySDR\<close> (in
  bladeRF_SoapySDR.hpp) is missing. These are the member variables that the streaming
  functions use: the sample rate of each direction, the queue of receive commands, the
  overflow latch with the tick position it reports, the negotiated format of each
  direction, the burst flag, the underflow latch, the two conversion buffers and the
  cached buffer sizes. The two sample rates are \<open>double\<close>s, of an uninterpreted type
  \<open>'r\<close>; \<open>_rxCmds\<close> is a \<open>std::queue\<close>, whose front is the head of the list;
  \<open>_rxNextTicks\<close> holds a tick count as the \<open>timestamp\<close> of the metadata does. The
  fields are typed by the way this file assigns them.
\<close>

record 'r bladeRF_SoapySDR =
  rxSampRate :: 'r
  txSampRate :: 'r
  rxCmds :: "rxStreamCmd list"
  rxOverflow :: bool
  rxNextTicks :: "64 word"
  rxFloats :: bool
  txFloats :: bool
  inTxBurst :: bool
  txUnderflow :: bool
  rxConvBuff :: memory
  txConvBuff :: memory
  cachedBuffSizes :: "c_int \<rightharpoonup> c_size_t"

text \<open>
  What the file leaves to the platform: \<open>atoi\<close> of the C library, the \<open>double\<close>
  arithmetic that converts between nanoseconds and ticks at a sample rate, the two
  elementwise sample conversions in \<open>float\<close> arithmetic (\<open>float(x)/2000\<close> of line 230
  and \<open>int16_t(x*2000)\<close> of line 286), and the representation of a \<open>float\<close> of type
  \<open>'f\<close> in memory.
\<close>

record ('r, 'f) platform =
  atoi :: "string \<Rightarrow> c_int"
  ns_to_ticks :: "'r \<Rightarrow> c_long \<Rightarrow> 64 word"
  ticks_to_ns :: "'r \<Rightarrow> 64 word \<Rightarrow> c_long"
  fixed_to_float :: "c_int16 \<Rightarrow> 'f"
  float_to_fixed :: "'f \<Rightarrow> c_int16"
  float_of_int16s :: "c_int16 \<Rightarrow> c_int16 \<Rightarrow> 'f"
  int16s_of_float :: "'f \<Rightarrow> c_int16 \<times> c_int16"

text \<open>Reading and writing element \<open>i\<close> of a block through a \<open>float *\<close>.\<close>

definition load_float :: "('r, 'f) platform \<Rightarrow> memory \<Rightarrow> nat \<Rightarrow> 'f" where
  "load_float P m i = float_of_int16s P (m (2 * i)) (m (2 * i + 1))"

definition store_float :: "('r, 'f) platform \<Rightarrow> memory \<Rightarrow> nat \<Rightarrow> 'f \<Rightarrow> memory" where
  "store_float P m i x = m(2 * i := fst (int16s_of_float P x), 2 * i + 1 := snd (int16s_of_float P x))"

text \<open>
  What the file does to the outside, in the order it does it: the calls to the device,
  each with the value it returned as its last component, and the log lines. \<open>SyncRx\<close>
  and \<open>SyncTx\<close> carry the sample count, the timestamp and the flags of the metadata
  passed in, and the timeout in milliseconds; \<open>SyncTx\<close> carries first the block that
  its \<open>samples\<close> pointer refers to. \<open>SyncConfig\<close> carries the direction, the number of
  buffers, the buffer size, the number of transfers and the timeout. \<open>LogError\<close> carries
  the format string and the return value it prints.
\<close>

datatype event =
  SyncConfig c_int c_uint c_uint c_uint c_uint c_int
| EnableModule c_int bool c_int
| SyncRx c_uint "64 word" c_uint c_uint c_int
| SyncTx memory c_uint "64 word" c_uint c_uint c_int
| LogError string c_int
| LogSSI string

text \<open>The events that are a transmit call.\<close>

fun is_SyncTx :: "event \<Rightarrow> bool" where
  "is_SyncTx (SyncTx _ _ _ _ _ _) = True"
| "is_SyncTx _ = False"

text \<open>
  What a transfer call of the device answers: its return value and the output fields of
  the metadata (libbladeRF reads \<open>flags\<close> and does not write it). A receive also
  writes samples at the start of the block it is given.
\<close>

record tx_reply =
  tx_ret :: c_int
  tx_timestamp :: "64 word"
  tx_status :: c_uint
  tx_actual_count :: c_uint

record rx_reply =
  rx_ret :: c_int
  rx_timestamp :: "64 word"
  rx_status :: c_uint
  rx_actual_count :: c_uint
  rx_written :: "c_int16 list"

text \<open>A block of zeros.\<close>

definition zero_block :: memory where
  "zero_block = (\<lambda>_. 0)"

definition overlay :: "c_int16 list \<Rightarrow> memory \<Rightarrow> memory" where
  "overlay ws m = (\<lambda>i. if i < length ws then ws ! i else m i)"

subsection \<open>setupStream\<close>

datatype setup_error =
  InvalidChannelSelection
| InvalidFormat string
| TransportError c_int

text \<open>Lines 47 to 49: the number of buffers.\<close>

definition numBuffs :: "('r, 'f) platform \<Rightarrow> (string \<rightharpoonup> string) \<Rightarrow> c_int" where
  "numBuffs P args =
     (let n0 = (case args ''buffers'' of None \<Rightarrow> 0 | Some v \<Rightarrow> atoi P v);
          n1 = (if n0 = 0 then DEF_BUFF_LEN else n0);
          n2 = (if n1 = 1 then n1 + 1 else n1)
      in n2)"

text \<open>Lines 52 to 54: the size of each buffer.\<close>

definition bufSize :: "('r, 'f) platform \<Rightarrow> (string \<rightharpoonup> string) \<Rightarrow> c_int" where
  "bufSize P args =
     (let b0 = (case args ''buflen'' of None \<Rightarrow> 0 | Some v \<Rightarrow> atoi P v);
          b1 = (if b0 = 0 then DEF_BUFF_LEN else b0);
          b2 = (if c_mod b1 1024 \<noteq> 0 then (c_div b1 1024 + 1) * 1024 else b1)
      in b2)"

text \<open>Lines 57 to 60: the number of transfers.\<close>

definition numXfers :: "('r, 'f) platform \<Rightarrow> (string \<rightharpoonup> string) \<Rightarrow> c_int" where
  "numXfers P args =
     (let x0 = (case args ''transfers'' of None \<Rightarrow> 0 | Some v \<Rightarrow> atoi P v);
          x1 = (if x0 = 0 then c_div (numBuffs P args) 2 else x0);
          x2 = (if c_gt x1 (numBuffs P args) then numBuffs P args else x1);
          x3 = (if c_gt x2 32 then 32 else x2)
      in x3)"

text \<open>
  \<open>setupStream\<close>. The two device calls answer with \<open>cfg_ret\<close> and \<open>en_ret\<close>. The
  result is the exception thrown or the stream handle (which holds the direction) with
  the new state, and the device calls made.
\<close>

definition setupStream ::
  "('r, 'f) platform \<Rightarrow> c_int \<Rightarrow> c_int \<Rightarrow> 'r bladeRF_SoapySDR \<Rightarrow>
   c_int \<Rightarrow> string \<Rightarrow> c_size_t list \<Rightarrow> (string \<rightharpoonup> string) \<Rightarrow>
   (setup_error + c_int \<times> 'r bladeRF_SoapySDR) \<times> event list" where
  "setupStream P cfg_ret en_ret s direction format channels args =
     (if length channels > 1 \<or> (length channels > 0 \<and> hd channels \<noteq> 0)
      then (Inl InvalidChannelSelection, [])
      else if format \<noteq> ''CF32'' \<and> format \<noteq> ''CS16''
      then (Inl (InvalidFormat format), [])
      else
        let cfg = SyncConfig direction (numBuffs P args) (bufSize P args) (numXfers P args) 1000
                    cfg_ret
        in if cfg_ret \<noteq> 0
        then (Inl (TransportError cfg_ret),
              [cfg, LogError ''bladerf_sync_config() returned %d'' cfg_ret])
        else if en_ret \<noteq> 0
        then (Inl (TransportError en_ret),
              [cfg, EnableModule direction True en_ret,
               LogError ''bladerf_enable_module(true) returned %d'' en_ret])
        else
          let s1 = (if direction = SOAPY_SDR_RX
                    then s\<lparr>rxOverflow := False, rxFloats := (format = ''CF32'')\<rparr> else s);
              s2 = (if direction = SOAPY_SDR_TX
                    then s1\<lparr>txUnderflow := False, txFloats := (format = ''CF32'')\<rparr> else s1);
              s3 = s2\<lparr>cachedBuffSizes := (cachedBuffSizes s2)(direction \<mapsto> scast (bufSize P args))\<rparr>
          in (Inr (direction, s3), [cfg, EnableModule direction True en_ret]))"

subsection \<open>closeStream, getStreamMTU, activateStream\<close>

definition closeStream ::
  "c_int \<Rightarrow> 'r bladeRF_SoapySDR \<Rightarrow> c_int \<Rightarrow> (setup_error + unit) \<times> event list" where
  "closeStream en_ret s direction =
     (if en_ret \<noteq> 0
      then (Inl (TransportError en_ret),
            [EnableModule direction False en_ret,
             LogError ''bladerf_enable_module(false) returned %s'' en_ret])
      else (Inr (), [EnableModule direction False en_ret]))"

text \<open>\<open>std::map::at\<close> throws where the key is absent.\<close>

definition getStreamMTU :: "'r bladeRF_SoapySDR \<Rightarrow> c_int \<Rightarrow> c_size_t option" where
  "getStreamMTU s direction = cachedBuffSizes s direction"

definition activateStream ::
  "'r bladeRF_SoapySDR \<Rightarrow> c_int \<Rightarrow> c_int \<Rightarrow> c_long \<Rightarrow> c_size_t \<Rightarrow>
   c_int \<times> 'r bladeRF_SoapySDR" where
  "activateStream s direction flags timeNs numElems =
     (let s1 = (if direction = SOAPY_SDR_RX
                then s\<lparr>rxCmds := rxCmds s @
                       [\<lparr>cmd_flags = flags, cmd_timeNs = timeNs, cmd_numElems = numElems\<rparr>]\<rparr>
                else s)
      in if direction = SOAPY_SDR_TX \<and> flags \<noteq> 0 then (SOAPY_SDR_NOT_SUPPORTED, s1)
         else (0, s1))"

subsection \<open>readStream\<close>

text \<open>
  The outputs of a \<open>readStream\<close> call: the return value, the two reference parameters
  \<open>flags\<close> and \<open>timeNs\<close>, the caller's block \<open>buffs[0]\<close>, the state, and what the call
  did to the outside.
\<close>

record 'r read_result =
  r_ret :: c_int
  r_flags :: c_int
  r_timeNs :: c_long
  r_buffs :: memory
  r_state :: "'r bladeRF_SoapySDR"
  r_events :: "event list"

text \<open>The conversion loop of lines 228 to 231, over \<open>n\<close> components.\<close>

definition rx_convert :: "('r, 'f) platform \<Rightarrow> memory \<Rightarrow> nat \<Rightarrow> memory \<Rightarrow> memory" where
  "rx_convert P conv n output =
     fold (\<lambda>i out. store_float P out i (fixed_to_float P (conv i))) [0..<n] output"

text \<open>
  \<open>readStream\<close>; \<open>reply\<close> is what \<open>bladerf_sync_rx\<close> answers if it is called. The
  command \<open>cmd\<close> is a copy of the front of the queue (line 182), so the assignments to
  its fields stay in the copy and \<open>cmd1\<close>, \<open>cmd2\<close> are the copy after each of them.
\<close>

definition readStream ::
  "('r, 'f) platform \<Rightarrow> 'r bladeRF_SoapySDR \<Rightarrow> memory \<Rightarrow> c_size_t \<Rightarrow> c_int \<Rightarrow> c_long \<Rightarrow>
   c_long \<Rightarrow> rx_reply \<Rightarrow> 'r read_result" where
  "readStream P s buffs numElems flags timeNs timeoutUs reply =
     (if rxCmds s = []
      then \<lparr>r_ret = SOAPY_SDR_TIMEOUT, r_flags = flags, r_timeNs = timeNs, r_buffs = buffs,
            r_state = s, r_events = []\<rparr>
      else
        let cmd = hd (rxCmds s) in
        if rxOverflow s
        then \<lparr>r_ret = SOAPY_SDR_OVERFLOW, r_flags = 0 OR SOAPY_SDR_HAS_TIME,
              r_timeNs = ticks_to_ns P (rxSampRate s) (rxNextTicks s), r_buffs = buffs,
              r_state = s\<lparr>rxOverflow := False\<rparr>, r_events = []\<rparr>
        else
          let md_flags = (if cmd_flags cmd AND SOAPY_SDR_HAS_TIME = 0
                          then 0 OR BLADERF_META_FLAG_RX_NOW else 0);
              md_timestamp = ns_to_ticks P (rxSampRate s) (cmd_timeNs cmd);
              n = (if cmd_numElems cmd > 0 then min (cmd_numElems cmd) numElems else numElems);
              cmd1 = cmd\<lparr>cmd_flags := 0\<rparr>;
              call = SyncRx (ucast n) md_timestamp md_flags (ucast (c_div timeoutUs 1000))
                       (rx_ret reply);
              buffs1 = (if rxFloats s then buffs else overlay (rx_written reply) buffs);
              s1 = (if rxFloats s
                    then s\<lparr>rxConvBuff := overlay (rx_written reply) (rxConvBuff s)\<rparr> else s)
          in
          if rx_ret reply = BLADERF_ERR_TIMEOUT
          then \<lparr>r_ret = SOAPY_SDR_TIMEOUT, r_flags = 0, r_timeNs = 0, r_buffs = buffs1,
                r_state = s1, r_events = [call]\<rparr>
          else if rx_ret reply \<noteq> 0
          then \<lparr>r_ret = SOAPY_SDR_STREAM_ERROR, r_flags = 0, r_timeNs = 0, r_buffs = buffs1,
                r_state = (if cmd_numElems cmd1 > 0 then s1\<lparr>rxCmds := tl (rxCmds s1)\<rparr> else s1),
                r_events = [call, LogError ''bladerf_sync_rx() returned %s'' (rx_ret reply)]\<rparr>
          else
            let buffs2 = (if rxFloats s
                          then rx_convert P (rxConvBuff s1) (unat (2 * n)) buffs1 else buffs1);
                overrun = (rx_status reply AND BLADERF_META_STATUS_OVERRUN \<noteq> 0);
                s2 = (if overrun
                      then s1\<lparr>rxNextTicks := rx_timestamp reply + ucast (rx_actual_count reply),
                              rxOverflow := True\<rparr>
                      else s1);
                cmd2 = (if cmd_numElems cmd1 > 0
                        then cmd1\<lparr>cmd_numElems := cmd_numElems cmd1 - ucast (rx_actual_count reply)\<rparr>
                        else cmd1);
                s3 = (if cmd_numElems cmd1 > 0 \<and> cmd_numElems cmd2 = 0
                      then s2\<lparr>rxCmds := tl (rxCmds s2)\<rparr> else s2)
            in \<lparr>r_ret = rx_actual_count reply, r_flags = 0 OR SOAPY_SDR_HAS_TIME,
                r_timeNs = ticks_to_ns P (rxSampRate s) (rx_timestamp reply), r_buffs = buffs2,
                r_state = s3,
                r_events = [call] @ (if overrun then [LogSSI ''0''] else [])\<rparr>)"

subsection \<open>sendTxEndBurst\<close>

text \<open>
  The loop of lines 332 to 341. Each call of \<open>bladerf_sync_tx\<close> takes the next reply of
  the device; \<open>ts\<close> is \<open>md.timestamp\<close>, which the device may have written in the call
  before. The payload is the array of two zero \<open>uint32_t\<close>, passed with the count 2. The
  loop may run forever: the result is \<open>None\<close> when it does.
\<close>

partial_function (option) sendTxEndBurst_loop ::
  "64 word \<Rightarrow> tx_reply stream \<Rightarrow> event list \<Rightarrow> (event list \<times> tx_reply stream) option" where
  "sendTxEndBurst_loop ts rs evs =
     (if tx_ret (shd rs) = 0
      then Some (evs @ [SyncTx zero_block 2 ts BLADERF_META_FLAG_TX_BURST_END 1000 (tx_ret (shd rs))],
                 stl rs)
      else if tx_ret (shd rs) = BLADERF_ERR_TIMEOUT
      then sendTxEndBurst_loop (tx_timestamp (shd rs)) (stl rs)
             (evs @ [SyncTx zero_block 2 ts BLADERF_META_FLAG_TX_BURST_END 1000 (tx_ret (shd rs))])
      else sendTxEndBurst_loop (tx_timestamp (shd rs)) (stl rs)
             (evs @ [SyncTx zero_block 2 ts BLADERF_META_FLAG_TX_BURST_END 1000 (tx_ret (shd rs)),
                     LogError ''sendTxEndBurst::bladerf_sync_tx() returned %d'' (tx_ret (shd rs))]))"

text \<open>
  What the loop does when the first \<open>n\<close> replies are failures and the next one is a
  success: a transfer for each of them, all alike but for the timestamp, and a log line
  after each failure that is not a timeout.
\<close>

primrec burst_end_trace :: "64 word \<Rightarrow> tx_reply stream \<Rightarrow> nat \<Rightarrow> event list" where
  "burst_end_trace ts rs 0 =
     [SyncTx zero_block 2 ts BLADERF_META_FLAG_TX_BURST_END 1000 (tx_ret (shd rs))]"
| "burst_end_trace ts rs (Suc n) =
     SyncTx zero_block 2 ts BLADERF_META_FLAG_TX_BURST_END 1000 (tx_ret (shd rs)) #
     (if tx_ret (shd rs) = BLADERF_ERR_TIMEOUT then []
      else [LogError ''sendTxEndBurst::bladerf_sync_tx() returned %d'' (tx_ret (shd rs))]) @
     burst_end_trace (tx_timestamp (shd rs)) (stl rs) n"

definition sendTxEndBurst ::
  "'r bladeRF_SoapySDR \<Rightarrow> tx_reply stream \<Rightarrow>
   ('r bladeRF_SoapySDR \<times> event list \<times> tx_reply stream) option" where
  "sendTxEndBurst s rs =
     (case sendTxEndBurst_loop 0 rs [] of
        None \<Rightarrow> None
      | Some (evs, rs') \<Rightarrow> Some (s\<lparr>inTxBurst := False\<rparr>, evs, rs'))"

subsection \<open>deactivateStream\<close>

record 'r call_result =
  c_ret :: c_int
  c_state :: "'r bladeRF_SoapySDR"
  c_events :: "event list"
  c_replies :: "tx_reply stream"

definition deactivateStream ::
  "'r bladeRF_SoapySDR \<Rightarrow> c_int \<Rightarrow> c_int \<Rightarrow> tx_reply stream \<Rightarrow> 'r call_result option" where
  "deactivateStream s direction flags rs =
     (if flags \<noteq> 0
      then Some \<lparr>c_ret = SOAPY_SDR_NOT_SUPPORTED, c_state = s, c_events = [], c_replies = rs\<rparr>
      else
        let s1 = (if direction = SOAPY_SDR_RX then s\<lparr>rxCmds := []\<rparr> else s)
        in if direction = SOAPY_SDR_TX \<and> inTxBurst s1
           then (case sendTxEndBurst s1 rs of
                   None \<Rightarrow> None
                 | Some (s2, evs, rs') \<Rightarrow>
                     Some \<lparr>c_ret = 0, c_state = s2, c_events = evs, c_replies = rs'\<rparr>)
           else Some \<lparr>c_ret = 0, c_state = s1, c_events = [], c_replies = rs\<rparr>)"

subsection \<open>writeStream\<close>

text \<open>
  The two blocks a pointer of \<open>writeStream\<close> can refer to: the caller's \<open>buffs[0]\<close> and
  the member \<open>_txConvBuff\<close>.
\<close>

datatype tx_ptr = Buffs0 | TxConvBuff

text \<open>
  The conversion loop of lines 284 to 287, over \<open>n\<close> components: it reads through the
  pointer \<open>input\<close> and writes into \<open>_txConvBuff\<close>.
\<close>

definition tx_convert ::
  "('r, 'f) platform \<Rightarrow> tx_ptr \<Rightarrow> nat \<Rightarrow> (tx_ptr \<Rightarrow> memory) \<Rightarrow> (tx_ptr \<Rightarrow> memory)" where
  "tx_convert P input n store =
     fold (\<lambda>i st. st(TxConvBuff := (st TxConvBuff)(i := float_to_fixed P (load_float P (st input) i))))
       [0..<n] store"

text \<open>
  \<open>writeStream\<close>. The first reply of \<open>rs\<close> answers the transfer of line 294, the
  following ones the transfers of \<open>sendTxEndBurst\<close>. \<open>flags\<close> is a reference parameter
  that the function only reads.
\<close>

definition writeStream ::
  "('r, 'f) platform \<Rightarrow> 'r bladeRF_SoapySDR \<Rightarrow> memory \<Rightarrow> c_size_t \<Rightarrow> c_int \<Rightarrow> c_long \<Rightarrow>
   c_long \<Rightarrow> tx_reply stream \<Rightarrow> 'r call_result option" where
  "writeStream P s buffs numElems flags timeNs timeoutUs rs =
     (let md_timestamp = (if flags AND SOAPY_SDR_HAS_TIME \<noteq> 0
                          then ns_to_ticks P (txSampRate s) timeNs else 0);
          md_flags1 = (if flags AND SOAPY_SDR_HAS_TIME \<noteq> 0
                       then 0 else 0 OR BLADERF_META_FLAG_TX_NOW);
          store0 = (\<lambda>p. case p of Buffs0 \<Rightarrow> buffs | TxConvBuff \<Rightarrow> txConvBuff s);
          samples = (if txFloats s then TxConvBuff else Buffs0);
          input = samples;
          store1 = (if txFloats s then tx_convert P input (unat (2 * numElems)) store0 else store0);
          s1 = s\<lparr>txConvBuff := store1 TxConvBuff\<rparr>;
          md_flags2 = (if \<not> inTxBurst s1
                       then md_flags1 OR BLADERF_META_FLAG_TX_BURST_START else md_flags1);
          reply = shd rs;
          call = SyncTx (store1 samples) (ucast numElems) md_timestamp md_flags2
                   (ucast (c_div timeoutUs 1000)) (tx_ret reply)
      in
      if tx_ret reply = BLADERF_ERR_TIMEOUT
      then Some \<lparr>c_ret = SOAPY_SDR_TIMEOUT, c_state = s1, c_events = [call], c_replies = stl rs\<rparr>
      else if tx_ret reply \<noteq> 0
      then Some \<lparr>c_ret = SOAPY_SDR_STREAM_ERROR, c_state = s1,
                 c_events = [call, LogError ''bladerf_sync_tx() returned %d'' (tx_ret reply)],
                 c_replies = stl rs\<rparr>
      else
        let s2 = s1\<lparr>inTxBurst := True\<rparr> in
        case (if flags AND SOAPY_SDR_END_BURST \<noteq> 0 then sendTxEndBurst s2 (stl rs)
              else Some (s2, [], stl rs)) of
          None \<Rightarrow> None
        | Some (s3, evs, rs') \<Rightarrow>
            let underrun = (tx_status reply AND BLADERF_META_STATUS_UNDERRUN \<noteq> 0);
                s4 = (if underrun then s3\<lparr>txUnderflow := True\<rparr> else s3)
            in Some \<lparr>c_ret = ucast numElems, c_state = s4,
                      c_events = [call] @ evs @ (if underrun then [LogSSI ''U''] else []),
                      c_replies = rs'\<rparr>)"

subsection \<open>readStreamStatus\<close>

definition readStreamStatus ::
  "'r bladeRF_SoapySDR \<Rightarrow> c_int \<times> c_int \<times> c_long \<times> 'r bladeRF_SoapySDR" where
  "readStreamStatus s =
     (if txUnderflow s then (SOAPY_SDR_UNDERFLOW, 0, 0, s\<lparr>txUnderflow := False\<rparr>)
      else (0, 0, 0, s))"

section \<open>A reference platform\<close>

subsection \<open>IEEE 754 binary32 arithmetic\<close>

text \<open>
  A \<open>float\<close> is given by the three fields of its binary32 encoding: the sign, the
  biased exponent (8 bits) and the fraction (23 bits). With exponent 0 it is the
  subnormal number \<open>frac * 2^-149\<close>, with exponent 255 an infinity (fraction 0) or a
  NaN, and otherwise \<open>(2^23 + frac) * 2^(exp - 150)\<close>.
\<close>

datatype f32 = F32 (f32_sign: bool) (f32_exp: nat) (f32_frac: nat)

definition f32_mant :: "f32 \<Rightarrow> nat" where
  "f32_mant w = (if f32_exp w = 0 then f32_frac w else 2 ^ 23 + f32_frac w)"

definition f32_scale :: "f32 \<Rightarrow> int" where
  "f32_scale w = (if f32_exp w = 0 then - 149 else int (f32_exp w) - 150)"

definition f32_is_nan :: "f32 \<Rightarrow> bool" where
  "f32_is_nan a = (f32_exp a = 255 \<and> f32_frac a \<noteq> 0)"

definition f32_nan :: f32 where
  "f32_nan = F32 False 255 (2 ^ 22)"

text \<open>The number of binary digits of \<open>n\<close>.\<close>

fun bit_length :: "nat \<Rightarrow> nat" where
  "bit_length n = (if n = 0 then 0 else Suc (bit_length (n div 2)))"

declare bit_length.simps [simp del]

text \<open>
  \<open>ilog2_ratio p q\<close> is the integer \<open>l\<close> with \<open>2^l \<le> p/q < 2^(l+1)\<close>, for positive \<open>p\<close>
  and \<open>q\<close>: the difference \<open>d\<close> of the bit lengths, or one less.
\<close>

definition ilog2_adjust :: "nat \<Rightarrow> nat \<Rightarrow> int \<Rightarrow> int" where
  "ilog2_adjust p q d =
     (if (if 0 \<le> d then q * 2 ^ nat d \<le> p else q \<le> p * 2 ^ nat (- d)) then d else d - 1)"

definition ilog2_ratio :: "nat \<Rightarrow> nat \<Rightarrow> int" where
  "ilog2_ratio p q = ilog2_adjust p q (int (bit_length p) - int (bit_length q))"

text \<open>
  \<open>round_half_even n d\<close> is the integer nearest to \<open>n/d\<close>, the even one of the two when
  \<open>n/d\<close> lies halfway: \<open>k\<close> is the quotient and \<open>r\<close> the remainder.
\<close>

definition round_pick :: "nat \<Rightarrow> nat \<Rightarrow> nat \<Rightarrow> nat" where
  "round_pick k r d =
     (if 2 * r < d then k else if d < 2 * r then k + 1 else if even k then k else k + 1)"

definition round_half_even :: "nat \<Rightarrow> nat \<Rightarrow> nat" where
  "round_half_even n d = round_pick (n div d) (n mod d) d"

text \<open>
  Rounding to nearest, ties to even, of the number \<open>p/q\<close> with sign \<open>sg\<close>. The
  significand \<open>m\<close> is \<open>p/q\<close> scaled by \<open>2^-e\<close> and rounded to an integer, where \<open>e\<close> puts
  it between \<open>2^23\<close> and \<open>2^24\<close>, or is -149 for a subnormal result. A significand
  rounded up to \<open>2^24\<close> moves to the next exponent, and a result beyond the largest finite
  number is an infinity.
\<close>

definition f32_fields :: "bool \<Rightarrow> nat \<Rightarrow> int \<Rightarrow> f32" where
  "f32_fields sg m e =
     (if m < 2 ^ 23 then F32 sg 0 m
      else if 255 \<le> e + 150 then F32 sg 255 0
      else F32 sg (nat (e + 150)) (m mod 2 ^ 23))"

definition f32_carry :: "bool \<Rightarrow> nat \<Rightarrow> int \<Rightarrow> f32" where
  "f32_carry sg m e = (if m = 2 ^ 24 then f32_fields sg (2 ^ 23) (e + 1) else f32_fields sg m e)"

definition f32_round_at :: "bool \<Rightarrow> nat \<Rightarrow> nat \<Rightarrow> int \<Rightarrow> f32" where
  "f32_round_at sg p q e =
     f32_carry sg (if 0 \<le> e then round_half_even p (q * 2 ^ nat e)
                   else round_half_even (p * 2 ^ nat (- e)) q) e"

definition f32_round :: "bool \<Rightarrow> nat \<Rightarrow> nat \<Rightarrow> f32" where
  "f32_round sg p q =
     (if p = 0 then F32 sg 0 0 else f32_round_at sg p q (max (ilog2_ratio p q - 23) (- 149)))"

text \<open>The rounded value of \<open>p/q * 2^e\<close>.\<close>

definition f32_scaled :: "bool \<Rightarrow> nat \<Rightarrow> nat \<Rightarrow> int \<Rightarrow> f32" where
  "f32_scaled sg p q e =
     (if 0 \<le> e then f32_round sg (p * 2 ^ nat e) q else f32_round sg p (q * 2 ^ nat (- e)))"

text \<open>The conversion of an integer to \<open>float\<close>, the product and the quotient.\<close>

definition f32_of_int :: "int \<Rightarrow> f32" where
  "f32_of_int k = f32_round (k < 0) (nat \<bar>k\<bar>) 1"

definition f32_mul :: "f32 \<Rightarrow> f32 \<Rightarrow> f32" where
  "f32_mul a b =
     (if f32_is_nan a \<or> f32_is_nan b then f32_nan
      else if f32_exp a = 255 \<or> f32_exp b = 255
      then (if f32_mant a = 0 \<or> f32_mant b = 0 then f32_nan
            else F32 (f32_sign a \<noteq> f32_sign b) 255 0)
      else f32_scaled (f32_sign a \<noteq> f32_sign b) (f32_mant a * f32_mant b) 1
             (f32_scale a + f32_scale b))"

definition f32_div :: "f32 \<Rightarrow> f32 \<Rightarrow> f32" where
  "f32_div a b =
     (if f32_is_nan a \<or> f32_is_nan b then f32_nan
      else if f32_exp a = 255
      then (if f32_exp b = 255 then f32_nan else F32 (f32_sign a \<noteq> f32_sign b) 255 0)
      else if f32_exp b = 255 then F32 (f32_sign a \<noteq> f32_sign b) 0 0
      else if f32_mant b = 0
      then (if f32_mant a = 0 then f32_nan else F32 (f32_sign a \<noteq> f32_sign b) 255 0)
      else f32_scaled (f32_sign a \<noteq> f32_sign b) (f32_mant a) (f32_mant b)
             (f32_scale a - f32_scale b))"

text \<open>
  The conversion of a \<open>float\<close> to \<open>int16_t\<close> drops the fractional part. C++ leaves it
  undefined where the result does not fit; here it keeps the low 16 bits, and is 0 for an
  infinity or a NaN.
\<close>

definition f32_trunc :: "f32 \<Rightarrow> nat" where
  "f32_trunc w =
     (if 0 \<le> f32_scale w then f32_mant w * 2 ^ nat (f32_scale w)
      else f32_mant w div 2 ^ nat (- f32_scale w))"

definition int16_of_f32 :: "f32 \<Rightarrow> c_int16" where
  "int16_of_f32 w =
     (if f32_exp w = 255 then 0
      else if f32_sign w then - of_nat (f32_trunc w) else of_nat (f32_trunc w))"

text \<open>Line 230, \<open>float(_rxConvBuff[i])/2000\<close>, and line 286, \<open>int16_t(input[i]*2000)\<close>.\<close>

definition fixed_to_float_f32 :: "c_int16 \<Rightarrow> f32" where
  "fixed_to_float_f32 v = f32_div (f32_of_int (sint v)) (f32_of_int 2000)"

definition float_to_fixed_f32 :: "f32 \<Rightarrow> c_int16" where
  "float_to_fixed_f32 x = int16_of_f32 (f32_mul x (f32_of_int 2000))"

text \<open>A \<open>float\<close> in memory, little-endian: the low half of its 32 bits comes first.\<close>

definition f32_of_int16s :: "c_int16 \<Rightarrow> c_int16 \<Rightarrow> f32" where
  "f32_of_int16s lo hi =
     F32 (bit hi 15) (unat (drop_bit 7 hi AND 255)) (unat (hi AND 127) * 2 ^ 16 + unat lo)"

definition int16s_of_f32 :: "f32 \<Rightarrow> c_int16 \<times> c_int16" where
  "int16s_of_f32 x =
     (of_nat (f32_frac x mod 2 ^ 16),
      (if f32_sign x then push_bit 15 1 else 0) OR push_bit 7 (of_nat (f32_exp x))
        OR of_nat (f32_frac x div 2 ^ 16))"

subsection \<open>atoi\<close>

text \<open>
  \<open>atoi\<close> skips white space, reads an optional sign and then decimal digits up to the
  first other character. C leaves the result undefined where it does not fit an \<open>int\<close>;
  here it wraps around.
\<close>

definition is_space :: "char \<Rightarrow> bool" where
  "is_space c = (of_char c \<in> {32, 9, 10, 11, 12, 13 :: nat})"

definition is_digit :: "char \<Rightarrow> bool" where
  "is_digit c = (48 \<le> (of_char c :: nat) \<and> (of_char c :: nat) \<le> 57)"

fun atoi_digits :: "c_int \<Rightarrow> string \<Rightarrow> c_int" where
  "atoi_digits acc [] = acc"
| "atoi_digits acc (c # cs) =
     (if is_digit c then atoi_digits (acc * 10 + (of_char c - 48)) cs else acc)"

definition atoi_c :: "string \<Rightarrow> c_int" where
  "atoi_c str =
     (case dropWhile is_space str of
        [] \<Rightarrow> 0
      | c # cs \<Rightarrow>
          if c = CHR ''-'' then - atoi_digits 0 cs
          else if c = CHR ''+'' then atoi_digits 0 cs
          else atoi_digits 0 (c # cs))"

subsection \<open>The platform\<close>

text \<open>
  A sample rate is a number of samples per second. The two time conversions are computed
  exactly and truncated, where the file computes them in \<open>double\<close>.
\<close>

definition ref_platform :: "(nat, f32) platform" where
  "ref_platform =
     \<lparr>atoi = atoi_c,
      ns_to_ticks = (\<lambda>rate ns. word_of_int ((sint ns * int rate) sdiv 1000000000)),
      ticks_to_ns = (\<lambda>rate t. word_of_int ((uint t * 1000000000) sdiv int rate)),
      fixed_to_float = fixed_to_float_f32,
      float_to_fixed = float_to_fixed_f32,
      float_of_int16s = f32_of_int16s,
      int16s_of_float = int16s_of_f32\<rparr>"

text \<open>A state to start from: nothing queued, no burst open, both streams on the native format.\<close>

definition idle :: "nat bladeRF_SoapySDR" where
  "idle =
     \<lparr>rxSampRate = 1000000, txSampRate = 1000000, rxCmds = [], rxOverflow = False,
      rxNextTicks = 0, rxFloats = False, txFloats = False, inTxBurst = False,
      txUnderflow = False, rxConvBuff = zero_block, txConvBuff = zero_block,
      cachedBuffSizes = Map.empty\<rparr>"

text \<open>The idle state with one continuous receive command queued.\<close>

definition streaming :: "nat bladeRF_SoapySDR" where
  "streaming = idle\<lparr>rxCmds := [\<lparr>cmd_flags = 0, cmd_timeNs = 0, cmd_numElems = 0\<rparr>]\<rparr>"

text \<open>The idle state after a finite receive command for 100 elements has been queued.\<close>

definition finite_rx :: "nat bladeRF_SoapySDR" where
  "finite_rx = snd (activateStream idle SOAPY_SDR_RX 0 0 100)"

text \<open>
  A caller's block that holds the two \<open>float\<close>s 1.0 and 0.5, which are \<open>0x3F800000\<close> and
  \<open>0x3F000000\<close>, followed by zeros.
\<close>

definition float_block :: memory where
  "float_block = overlay [0, 0x3F80, 0, 0x3F00] zero_block"

text \<open>Replies of the device: a return value, a status and an actual count.\<close>

definition rx_answer :: "c_int \<Rightarrow> c_uint \<Rightarrow> c_uint \<Rightarrow> rx_reply" where
  "rx_answer ret st n =
     \<lparr>rx_ret = ret, rx_timestamp = 0, rx_status = st, rx_actual_count = n, rx_written = []\<rparr>"

definition tx_answer :: "c_int \<Rightarrow> c_uint \<Rightarrow> c_uint \<Rightarrow> tx_reply" where
  "tx_answer ret st n =
     \<lparr>tx_ret = ret, tx_timestamp = 0, tx_status = st, tx_actual_count = n\<rparr>"

section \<open>Properties\<close>

lemmas soapy_consts =
  SOAPY_SDR_TX_def SOAPY_SDR_RX_def SOAPY_SDR_END_BURST_def SOAPY_SDR_HAS_TIME_def
  SOAPY_SDR_TIMEOUT_def SOAPY_SDR_STREAM_ERROR_def SOAPY_SDR_OVERFLOW_def
  SOAPY_SDR_NOT_SUPPORTED_def SOAPY_SDR_UNDERFLOW_def

lemmas bladerf_consts =
  BLADERF_ERR_TIMEOUT_def BLADERF_META_FLAG_TX_BURST_START_def
  BLADERF_META_FLAG_TX_BURST_END_def BLADERF_META_FLAG_TX_NOW_def
  BLADERF_META_FLAG_RX_NOW_def BLADERF_META_STATUS_OVERRUN_def
  BLADERF_META_STATUS_UNDERRUN_def

lemmas f32_defs =
  float_to_fixed_f32_def fixed_to_float_f32_def f32_div_def f32_mul_def f32_of_int_def
  f32_round_def f32_round_at_def f32_carry_def f32_fields_def ilog2_ratio_def ilog2_adjust_def
  f32_mant_def f32_scale_def int16_of_f32_def round_half_even_def round_pick_def f32_is_nan_def
  f32_scaled_def f32_trunc_def bit_length.simps f32_nan_def

subsection \<open>The burst-end loop\<close>

lemma loop_Some_ex:
  assumes "sendTxEndBurst_loop ts rs evs = Some y"
  shows "\<exists>n. tx_ret (rs !! n) = 0"
proof (rule sendTxEndBurst_loop.raw_induct
         [where P = "\<lambda>ts rs evs y. \<exists>n. tx_ret (rs !! n) = 0", OF _ assms])
  fix loop :: "64 word \<Rightarrow> tx_reply stream \<Rightarrow> event list \<Rightarrow> (event list \<times> tx_reply stream) option"
  fix ts rs evs y
  assume IH: "\<And>ts rs evs y. loop ts rs evs = Some y \<Longrightarrow> \<exists>n. tx_ret (rs !! n) = 0"
  assume body:
    "(if tx_ret (shd rs) = 0
      then Some (evs @ [SyncTx zero_block 2 ts BLADERF_META_FLAG_TX_BURST_END 1000 (tx_ret (shd rs))],
                 stl rs)
      else if tx_ret (shd rs) = BLADERF_ERR_TIMEOUT
      then loop (tx_timestamp (shd rs)) (stl rs)
             (evs @ [SyncTx zero_block 2 ts BLADERF_META_FLAG_TX_BURST_END 1000 (tx_ret (shd rs))])
      else loop (tx_timestamp (shd rs)) (stl rs)
             (evs @ [SyncTx zero_block 2 ts BLADERF_META_FLAG_TX_BURST_END 1000 (tx_ret (shd rs)),
                     LogError ''sendTxEndBurst::bladerf_sync_tx() returned %d'' (tx_ret (shd rs))])) =
     Some y"
  show "\<exists>n. tx_ret (rs !! n) = 0"
  proof (cases "tx_ret (shd rs) = 0")
    case True
    then have "tx_ret (rs !! 0) = 0" by simp
    then show ?thesis by blast
  next
    case False
    with body obtain ts' evs' where "loop ts' (stl rs) evs' = Some y"
      by (auto split: if_splits)
    from IH [OF this] obtain n where "tx_ret (stl rs !! n) = 0" by blast
    then have "tx_ret (rs !! Suc n) = 0" by simp
    then show ?thesis by blast
  qed
qed

lemma loop_None:
  "\<forall>i. tx_ret (rs !! i) \<noteq> 0 \<Longrightarrow> sendTxEndBurst_loop ts rs evs = None"
  using loop_Some_ex [of ts rs evs] by (cases "sendTxEndBurst_loop ts rs evs") auto

lemma loop_Some:
  "tx_ret (rs !! n) = 0 \<Longrightarrow> \<forall>i<n. tx_ret (rs !! i) \<noteq> 0 \<Longrightarrow>
   sendTxEndBurst_loop ts rs evs = Some (evs @ burst_end_trace ts rs n, sdrop (Suc n) rs)"
proof (induction n arbitrary: ts rs evs)
  case 0
  then show ?case by (subst sendTxEndBurst_loop.simps) simp
next
  case (Suc n)
  have hd: "tx_ret (shd rs) \<noteq> 0" using Suc.prems(2) by (metis snth.simps(1) zero_less_Suc)
  have tl0: "tx_ret (stl rs !! n) = 0" using Suc.prems(1) by simp
  have tln: "\<forall>i<n. tx_ret (stl rs !! i) \<noteq> 0"
  proof (intro allI impI)
    fix i assume "i < n"
    then have "Suc i < Suc n" by simp
    with Suc.prems(2) have "tx_ret (rs !! Suc i) \<noteq> 0" by blast
    then show "tx_ret (stl rs !! i) \<noteq> 0" by simp
  qed
  show ?case
    by (subst sendTxEndBurst_loop.simps) (simp add: hd Suc.IH [OF tl0 tln])
qed

lemma first_success:
  assumes "tx_ret (rs !! m) = (0 :: c_int)"
  obtains n where "tx_ret (rs !! n) = 0" and "\<forall>i<n. tx_ret (rs !! i) \<noteq> 0"
proof -
  let ?n = "LEAST k. tx_ret (rs !! k) = 0"
  have a: "tx_ret (rs !! ?n) = 0" using assms by (rule LeastI)
  have b: "\<forall>i<?n. tx_ret (rs !! i) \<noteq> 0" using not_less_Least by blast
  from a b that show thesis by blast
qed

lemma trace_events:
  "\<forall>i<n. tx_ret (rs !! i) \<noteq> 0 \<Longrightarrow> e \<in> set (burst_end_trace ts rs n) \<Longrightarrow>
     (\<exists>t r. e = SyncTx zero_block 2 t BLADERF_META_FLAG_TX_BURST_END 1000 r) \<or>
     (\<exists>r. e = LogError ''sendTxEndBurst::bladerf_sync_tx() returned %d'' r \<and> r \<noteq> 0
          \<and> r \<noteq> BLADERF_ERR_TIMEOUT)"
proof (induction n arbitrary: ts rs)
  case 0
  then show ?case by simp
next
  case (Suc n)
  have hd: "tx_ret (shd rs) \<noteq> 0" using Suc.prems(1) by (metis snth.simps(1) zero_less_Suc)
  have tln: "\<forall>i<n. tx_ret (stl rs !! i) \<noteq> 0"
  proof (intro allI impI)
    fix i assume "i < n"
    then have "Suc i < Suc n" by simp
    with Suc.prems(1) have "tx_ret (rs !! Suc i) \<noteq> 0" by blast
    then show "tx_ret (stl rs !! i) \<noteq> 0" by simp
  qed
  from Suc.prems(2) hd Suc.IH [OF tln] show ?case
    by (auto split: if_splits)
qed

lemma trace_has_success:
  "\<exists>t. SyncTx zero_block 2 t BLADERF_META_FLAG_TX_BURST_END 1000 (tx_ret (rs !! n))
     \<in> set (burst_end_trace ts rs n)"
proof (induction n arbitrary: ts rs)
  case 0
  show ?case by simp
next
  case (Suc n)
  have "\<exists>t. SyncTx zero_block 2 t BLADERF_META_FLAG_TX_BURST_END 1000 (tx_ret (stl rs !! n))
          \<in> set (burst_end_trace (tx_timestamp (shd rs)) (stl rs) n)"
    by (rule Suc.IH)
  then show ?case by auto
qed

lemma trace_transfers:
  "length (filter is_SyncTx (burst_end_trace ts rs n)) = Suc n"
  by (induction n arbitrary: ts rs) auto

lemma sendTxEndBurst_Some:
  assumes "sendTxEndBurst s rs = Some (s', evs, rs')"
  shows "s' = s\<lparr>inTxBurst := False\<rparr> \<and>
         (\<exists>t. SyncTx zero_block 2 t BLADERF_META_FLAG_TX_BURST_END 1000 0 \<in> set evs)"
proof (cases "sendTxEndBurst_loop 0 rs []")
  case None
  with assms show ?thesis by (simp add: sendTxEndBurst_def)
next
  case (Some y)
  with assms have r: "s' = s\<lparr>inTxBurst := False\<rparr>" "y = (evs, rs')"
    by (cases y; simp add: sendTxEndBurst_def)+
  from loop_Some_ex [OF Some] obtain m where "tx_ret (rs !! m) = 0" by blast
  then obtain n where n: "tx_ret (rs !! n) = 0" "\<forall>i<n. tx_ret (rs !! i) \<noteq> 0"
    by (rule first_success)
  from loop_Some [OF n, of 0 "[]"] Some r(2) have "evs = burst_end_trace 0 rs n"
    by simp
  with trace_has_success [where ts = 0 and rs = rs and n = n] n(1) r(1) show ?thesis by auto
qed

text \<open>
  C3, as the code has it. \<open>sendTxEndBurst\<close> repeats the transfer after a timeout and,
  once it has logged it, after any other error as well: when the first \<open>n\<close> replies are
  failures and the next one is a success, it makes \<open>n + 1\<close> transfers, logs each failure
  that is not a timeout, and returns with the burst flag cleared. Every transfer
  carries the burst-end flag, a block of zeros, the sample count 2 and a timeout of
  1000 ms. When no reply is a success, it does not return.
\<close>

theorem sendTxEndBurst_retries:
  "(tx_ret (rs !! n) = 0 \<and> (\<forall>i<n. tx_ret (rs !! i) \<noteq> 0) \<longrightarrow>
      sendTxEndBurst s rs = Some (s\<lparr>inTxBurst := False\<rparr>, burst_end_trace 0 rs n, sdrop (Suc n) rs)
      \<and> length (filter is_SyncTx
                  (burst_end_trace 0 rs n)) = Suc n
      \<and> (\<forall>e \<in> set (burst_end_trace 0 rs n).
            (\<exists>t r. e = SyncTx zero_block 2 t BLADERF_META_FLAG_TX_BURST_END 1000 r) \<or>
            (\<exists>r. e = LogError ''sendTxEndBurst::bladerf_sync_tx() returned %d'' r \<and> r \<noteq> 0
                 \<and> r \<noteq> BLADERF_ERR_TIMEOUT)))
   \<and> ((\<forall>i. tx_ret (rs' !! i) \<noteq> 0) \<longrightarrow> sendTxEndBurst s rs' = None)"
proof (intro conjI impI)
  assume h: "tx_ret (rs !! n) = 0 \<and> (\<forall>i<n. tx_ret (rs !! i) \<noteq> 0)"
  then show "sendTxEndBurst s rs =
      Some (s\<lparr>inTxBurst := False\<rparr>, burst_end_trace 0 rs n, sdrop (Suc n) rs)"
    using loop_Some [of rs n 0 "[]"] by (simp add: sendTxEndBurst_def)
  show "length (filter is_SyncTx
                  (burst_end_trace 0 rs n)) = Suc n"
    by (rule trace_transfers)
  show "\<forall>e \<in> set (burst_end_trace 0 rs n).
            (\<exists>t r. e = SyncTx zero_block 2 t BLADERF_META_FLAG_TX_BURST_END 1000 r) \<or>
            (\<exists>r. e = LogError ''sendTxEndBurst::bladerf_sync_tx() returned %d'' r \<and> r \<noteq> 0
                 \<and> r \<noteq> BLADERF_ERR_TIMEOUT)"
    using h trace_events [of n rs _ 0] by blast
next
  assume "\<forall>i. tx_ret (rs' !! i) \<noteq> 0"
  then show "sendTxEndBurst s rs' = None"
    by (simp add: sendTxEndBurst_def loop_None)
qed

theorem sendTxEndBurst_retries_witness:
  "sendTxEndBurst idle (tx_answer BLADERF_ERR_TIMEOUT 0 0 ## tx_answer (- 1) 0 0 ## sconst (tx_answer 0 0 0)) =
     Some (idle, 
       [SyncTx zero_block 2 0 BLADERF_META_FLAG_TX_BURST_END 1000 BLADERF_ERR_TIMEOUT,
        SyncTx zero_block 2 0 BLADERF_META_FLAG_TX_BURST_END 1000 (- 1),
        LogError ''sendTxEndBurst::bladerf_sync_tx() returned %d'' (- 1),
        SyncTx zero_block 2 0 BLADERF_META_FLAG_TX_BURST_END 1000 0],
       sconst (tx_answer 0 0 0))
   \<and> sendTxEndBurst idle (sconst (tx_answer BLADERF_ERR_TIMEOUT 0 0)) = None"
proof -
  let ?rs = "tx_answer BLADERF_ERR_TIMEOUT 0 0 ## tx_answer (- 1) 0 0 ## sconst (tx_answer 0 0 0)"
  let ?rs' = "sconst (tx_answer BLADERF_ERR_TIMEOUT 0 0)"
  have h1: "tx_ret (?rs !! Suc (Suc 0)) = 0 \<and> (\<forall>i<Suc (Suc 0). tx_ret (?rs !! i) \<noteq> 0)"
    by (simp add: tx_answer_def BLADERF_ERR_TIMEOUT_def less_Suc_eq)
  have h2: "\<forall>i. tx_ret (?rs' !! i) \<noteq> 0"
    by (simp add: tx_answer_def BLADERF_ERR_TIMEOUT_def)
  have tr: "burst_end_trace 0 ?rs (Suc (Suc 0)) =
       [SyncTx zero_block 2 0 BLADERF_META_FLAG_TX_BURST_END 1000 BLADERF_ERR_TIMEOUT,
        SyncTx zero_block 2 0 BLADERF_META_FLAG_TX_BURST_END 1000 (- 1),
        LogError ''sendTxEndBurst::bladerf_sync_tx() returned %d'' (- 1),
        SyncTx zero_block 2 0 BLADERF_META_FLAG_TX_BURST_END 1000 0]"
    by (simp add: tx_answer_def BLADERF_ERR_TIMEOUT_def)
  have idle': "idle\<lparr>inTxBurst := False\<rparr> = idle"
    by (simp add: idle_def)
  from sendTxEndBurst_retries [of ?rs "Suc (Suc 0)" idle ?rs'] h1 h2
  have a: "sendTxEndBurst idle ?rs =
             Some (idle\<lparr>inTxBurst := False\<rparr>, burst_end_trace 0 ?rs (Suc (Suc 0)),
                   sdrop (Suc (Suc (Suc 0))) ?rs)"
    and b: "sendTxEndBurst idle ?rs' = None"
    by blast+
  have dr: "sdrop (Suc (Suc (Suc 0))) ?rs = sconst (tx_answer 0 0 0)"
    by simp
  from a b show ?thesis unfolding tr idle' dr by simp
qed

text \<open>
  C3 as stated fails after an error that is not a timeout: the loop logs it and makes the
  transfer again, here a second time, and it does not return while the device keeps
  answering with the error. The transfer also counts two samples, not one.
\<close>

theorem sendTxEndBurst_error_counterexample:
  "sendTxEndBurst idle (tx_answer (- 1) 0 0 ## sconst (tx_answer 0 0 0)) =
     Some (idle,
       [SyncTx zero_block 2 0 BLADERF_META_FLAG_TX_BURST_END 1000 (- 1),
        LogError ''sendTxEndBurst::bladerf_sync_tx() returned %d'' (- 1),
        SyncTx zero_block 2 0 BLADERF_META_FLAG_TX_BURST_END 1000 0],
       sconst (tx_answer 0 0 0))
   \<and> sendTxEndBurst idle (sconst (tx_answer (- 1) 0 0)) = None"
proof -
  let ?rs = "tx_answer (- 1) 0 0 ## sconst (tx_answer 0 0 0)"
  have h: "tx_ret (?rs !! Suc 0) = 0" "\<forall>i<Suc 0. tx_ret (?rs !! i) \<noteq> 0"
    by (simp_all add: tx_answer_def)
  have a: "sendTxEndBurst_loop 0 ?rs [] =
             Some ([] @ burst_end_trace 0 ?rs (Suc 0), sdrop (Suc (Suc 0)) ?rs)"
    by (rule loop_Some [OF h])
  have b: "sendTxEndBurst_loop 0 (sconst (tx_answer (- 1) 0 0)) [] = None"
    by (rule loop_None) (simp add: tx_answer_def)
  have idle': "idle\<lparr>inTxBurst := False\<rparr> = idle"
    by (simp add: idle_def)
  have tr: "burst_end_trace 0 ?rs (Suc 0) =
       [SyncTx zero_block 2 0 BLADERF_META_FLAG_TX_BURST_END 1000 (- 1),
        LogError ''sendTxEndBurst::bladerf_sync_tx() returned %d'' (- 1),
        SyncTx zero_block 2 0 BLADERF_META_FLAG_TX_BURST_END 1000 0]"
    by (simp add: tx_answer_def BLADERF_ERR_TIMEOUT_def)
  show ?thesis
    unfolding sendTxEndBurst_def a b tr idle' by simp
qed

subsection \<open>Receiving with an empty queue\<close>

text \<open>
  C7. A \<open>readStream\<close> call made while the command queue is empty returns
  \<open>SOAPY_SDR_TIMEOUT\<close>, calls nothing of the device, and leaves the state, the caller's
  block and the two reference parameters as they were.
\<close>

theorem readStream_empty_queue:
  "rxCmds s = [] \<Longrightarrow>
   readStream P s buffs numElems flags timeNs timeoutUs reply =
     \<lparr>r_ret = SOAPY_SDR_TIMEOUT, r_flags = flags, r_timeNs = timeNs, r_buffs = buffs,
      r_state = s, r_events = []\<rparr>"
  by (simp add: readStream_def)

theorem readStream_empty_queue_witness:
  "rxCmds idle = [] \<and>
   readStream ref_platform idle zero_block 16 3 7 1000 (rx_answer 0 0 16) =
     \<lparr>r_ret = SOAPY_SDR_TIMEOUT, r_flags = 3, r_timeNs = 7, r_buffs = zero_block,
      r_state = idle, r_events = []\<rparr>"
  using readStream_empty_queue [of idle ref_platform zero_block 16 3 7 1000 "rx_answer 0 0 16"]
  by (simp add: idle_def)

subsection \<open>The default number of buffers\<close>

text \<open>
  C10. Where the option \<open>buffers\<close> is absent or reads as 0, a \<open>setupStream\<close> call that
  gets as far as configuring the device configures it with 4096 buffers, the value of
  \<open>DEF_BUFF_LEN\<close>, which is not that of \<open>DEF_NUM_BUFFS\<close>.
\<close>

theorem setupStream_default_buffers:
  assumes "args ''buffers'' = None \<or> (\<exists>v. args ''buffers'' = Some v \<and> atoi P v = 0)"
      and "channels = [] \<or> channels = [0]"
      and "format = ''CF32'' \<or> format = ''CS16''"
  shows "take 1 (snd (setupStream P cfg_ret en_ret s direction format channels args)) =
           [SyncConfig direction 4096 (bufSize P args) (numXfers P args) 1000 cfg_ret]
         \<and> DEF_BUFF_LEN = 4096 \<and> DEF_BUFF_LEN \<noteq> DEF_NUM_BUFFS"
proof -
  have nb: "numBuffs P args = 4096"
    using assms(1) by (auto simp: numBuffs_def DEF_BUFF_LEN_def)
  show ?thesis
    using assms(2,3) by (auto simp: setupStream_def nb Let_def DEF_BUFF_LEN_def DEF_NUM_BUFFS_def)
qed

theorem setupStream_default_buffers_witness:
  "take 1 (snd (setupStream ref_platform 0 0 idle SOAPY_SDR_RX ''CS16'' [] Map.empty)) =
     [SyncConfig SOAPY_SDR_RX 4096 4096 32 1000 0]
   \<and> take 1 (snd (setupStream ref_platform 0 0 idle SOAPY_SDR_RX ''CF32'' [0] [''buffers'' \<mapsto> ''0''])) =
     [SyncConfig SOAPY_SDR_RX 4096 4096 32 1000 0]"
proof -
  have z: "atoi ref_platform ''0'' = 0"
    by (simp add: ref_platform_def atoi_c_def is_space_def is_digit_def)
  have b1: "bufSize ref_platform Map.empty = 4096" "numXfers ref_platform Map.empty = 32"
    by (simp_all add: bufSize_def numXfers_def numBuffs_def DEF_BUFF_LEN_def c_mod_def c_div_def
          c_gt_def)
  have b2: "bufSize ref_platform [''buffers'' \<mapsto> ''0''] = 4096"
    "numXfers ref_platform [''buffers'' \<mapsto> ''0''] = 32"
    by (simp_all add: bufSize_def numXfers_def numBuffs_def DEF_BUFF_LEN_def c_mod_def c_div_def
          c_gt_def z)
  from setupStream_default_buffers [of Map.empty ref_platform "[]" "''CS16''" 0 0 idle SOAPY_SDR_RX]
    setupStream_default_buffers [of "[''buffers'' \<mapsto> ''0'']" ref_platform "[0]" "''CF32''" 0 0 idle
      SOAPY_SDR_RX]
  show ?thesis by (simp add: b1 b2 z)
qed

subsection \<open>Transmitting\<close>

lemma writeStream_failed:
  assumes "tx_ret (shd rs) \<noteq> 0"
  shows "\<exists>r. writeStream P s buffs numElems flags timeNs timeoutUs rs = Some r
           \<and> inTxBurst (c_state r) = inTxBurst s
           \<and> c_ret r = (if tx_ret (shd rs) = BLADERF_ERR_TIMEOUT then SOAPY_SDR_TIMEOUT
                         else SOAPY_SDR_STREAM_ERROR)"
  using assms by (simp add: writeStream_def Let_def)

lemma writeStream_open:
  assumes "tx_ret (shd rs) = 0" "flags AND SOAPY_SDR_END_BURST = 0"
  shows "\<exists>r. writeStream P s buffs numElems flags timeNs timeoutUs rs = Some r
           \<and> inTxBurst (c_state r) \<and> c_ret r = ucast numElems"
  using assms by (simp add: writeStream_def Let_def BLADERF_ERR_TIMEOUT_def)

lemma writeStream_end:
  assumes "tx_ret (shd rs) = 0" "flags AND SOAPY_SDR_END_BURST \<noteq> 0"
      and "writeStream P s buffs numElems flags timeNs timeoutUs rs = Some r"
  shows "\<not> inTxBurst (c_state r) \<and> c_ret r = ucast numElems
         \<and> (\<exists>t. SyncTx zero_block 2 t BLADERF_META_FLAG_TX_BURST_END 1000 0 \<in> set (c_events r))"
proof -
  let ?s2 = "s\<lparr>txConvBuff := (if txFloats s
                 then tx_convert P TxConvBuff (unat (2 * numElems))
                        (\<lambda>p. case p of Buffs0 \<Rightarrow> buffs | TxConvBuff \<Rightarrow> txConvBuff s)
                 else (\<lambda>p. case p of Buffs0 \<Rightarrow> buffs | TxConvBuff \<Rightarrow> txConvBuff s)) TxConvBuff,
               inTxBurst := True\<rparr>"
  from assms obtain s3 evs rs' where
    e: "sendTxEndBurst ?s2 (stl rs) = Some (s3, evs, rs')"
    by (auto simp: writeStream_def Let_def BLADERF_ERR_TIMEOUT_def split: option.splits if_splits)
  from sendTxEndBurst_Some [OF e] have
    s3: "s3 = ?s2\<lparr>inTxBurst := False\<rparr>"
    and t: "\<exists>t. SyncTx zero_block 2 t BLADERF_META_FLAG_TX_BURST_END 1000 0 \<in> set evs"
    by blast+
  from assms e have r: "inTxBurst (c_state r) = inTxBurst s3" "c_ret r = ucast numElems"
      "set evs \<subseteq> set (c_events r)"
    by (auto simp: writeStream_def Let_def BLADERF_ERR_TIMEOUT_def split: option.splits if_splits)
  from r s3 t show ?thesis by auto
qed


lemma writeStream_closed_by_end:
  assumes "inTxBurst s" "\<not> inTxBurst (c_state r)"
      and "writeStream P s buffs numElems flags timeNs timeoutUs rs = Some r"
  shows "\<exists>t. SyncTx zero_block 2 t BLADERF_META_FLAG_TX_BURST_END 1000 0 \<in> set (c_events r)"
proof (cases "tx_ret (shd rs) = 0")
  case False
  from writeStream_failed [OF False, of P s buffs numElems flags timeNs timeoutUs] assms
  show ?thesis by auto
next
  case True
  show ?thesis
  proof (cases "flags AND SOAPY_SDR_END_BURST = 0")
    case True
    from writeStream_open [OF \<open>tx_ret (shd rs) = 0\<close> True, of P s buffs numElems timeNs timeoutUs]
      assms show ?thesis by auto
  next
    case False
    from writeStream_end [OF True False assms(3)] show ?thesis by blast
  qed
qed

lemma deactivateStream_closed_by_end:
  assumes "inTxBurst s" "\<not> inTxBurst (c_state r)"
      and "deactivateStream s direction flags rs = Some r"
  shows "\<exists>t. SyncTx zero_block 2 t BLADERF_META_FLAG_TX_BURST_END 1000 0 \<in> set (c_events r)"
proof (cases "flags = 0 \<and> direction = SOAPY_SDR_TX")
  case False
  with assms show ?thesis
    by (auto simp: deactivateStream_def Let_def split: if_splits)
next
  case True
  with assms obtain s2 evs rs' where e: "sendTxEndBurst s rs = Some (s2, evs, rs')"
    and r: "c_events r = evs"
    by (auto simp: deactivateStream_def Let_def soapy_consts split: option.splits if_splits)
  from sendTxEndBurst_Some [OF e] r show ?thesis by simp
qed

lemma sendTxEndBurst_returns:
  assumes "tx_ret (rs !! m) = 0"
  shows "\<exists>evs rs'. sendTxEndBurst s rs = Some (s\<lparr>inTxBurst := False\<rparr>, evs, rs')
           \<and> (\<exists>t. SyncTx zero_block 2 t BLADERF_META_FLAG_TX_BURST_END 1000 0 \<in> set evs)"
proof -
  from assms obtain n where n: "tx_ret (rs !! n) = 0" "\<forall>i<n. tx_ret (rs !! i) \<noteq> 0"
    by (rule first_success)
  from loop_Some [OF n, of 0 "[]"]
  have "sendTxEndBurst s rs = Some (s\<lparr>inTxBurst := False\<rparr>, burst_end_trace 0 rs n, sdrop (Suc n) rs)"
    by (simp add: sendTxEndBurst_def)
  with trace_has_success [where ts = 0 and rs = rs and n = n] n(1) show ?thesis by auto
qed

lemma sendTxEndBurst_hangs:
  "\<forall>i. tx_ret (rs !! i) \<noteq> 0 \<Longrightarrow> sendTxEndBurst s rs = None"
  by (simp add: sendTxEndBurst_def loop_None)

lemma writeStream_returns_end:
  assumes "tx_ret (shd rs) = 0" "flags AND SOAPY_SDR_END_BURST \<noteq> 0"
      and "tx_ret (stl rs !! m) = 0"
  shows "\<exists>r. writeStream P s buffs numElems flags timeNs timeoutUs rs = Some r
           \<and> \<not> inTxBurst (c_state r) \<and> c_ret r = ucast numElems
           \<and> (\<exists>t. SyncTx zero_block 2 t BLADERF_META_FLAG_TX_BURST_END 1000 0 \<in> set (c_events r))"
proof -
  have ne: "sendTxEndBurst s' (stl rs) \<noteq> None" for s' :: "'a bladeRF_SoapySDR"
    using sendTxEndBurst_returns [OF assms(3), of s'] by auto
  from assms(1,2) have "\<exists>r. writeStream P s buffs numElems flags timeNs timeoutUs rs = Some r"
    by (auto simp: writeStream_def Let_def BLADERF_ERR_TIMEOUT_def ne split: option.splits)
  then obtain r where r: "writeStream P s buffs numElems flags timeNs timeoutUs rs = Some r"
    by blast
  from writeStream_end [OF assms(1,2) r] r show ?thesis by blast
qed

lemma writeStream_hangs:
  assumes "tx_ret (shd rs) = 0" "flags AND SOAPY_SDR_END_BURST \<noteq> 0"
      and "\<forall>i. tx_ret (stl rs !! i) \<noteq> 0"
  shows "writeStream P s buffs numElems flags timeNs timeoutUs rs = None"
  using assms(1,2)
  by (simp add: writeStream_def Let_def BLADERF_ERR_TIMEOUT_def sendTxEndBurst_hangs [OF assms(3)])

lemma deactivateStream_returns:
  assumes "inTxBurst s" "tx_ret (rs !! m) = 0"
  shows "\<exists>r. deactivateStream s SOAPY_SDR_TX 0 rs = Some r
           \<and> \<not> inTxBurst (c_state r) \<and> c_ret r = 0
           \<and> (\<exists>t. SyncTx zero_block 2 t BLADERF_META_FLAG_TX_BURST_END 1000 0 \<in> set (c_events r))"
proof -
  from sendTxEndBurst_returns [OF assms(2), of s] obtain evs rs' where
    e: "sendTxEndBurst s rs = Some (s\<lparr>inTxBurst := False\<rparr>, evs, rs')"
    and t: "\<exists>t. SyncTx zero_block 2 t BLADERF_META_FLAG_TX_BURST_END 1000 0 \<in> set evs"
    by blast
  from assms(1) e t show ?thesis
    by (simp add: deactivateStream_def Let_def soapy_consts)
qed

lemma deactivateStream_hangs:
  assumes "inTxBurst s" "\<forall>i. tx_ret (rs !! i) \<noteq> 0"
  shows "deactivateStream s SOAPY_SDR_TX 0 rs = None"
  using assms(1)
  by (simp add: deactivateStream_def Let_def soapy_consts sendTxEndBurst_hangs [OF assms(2)])

lemma other_calls_keep_flag:
  "inTxBurst (r_state (readStream P s buffs numElems flags timeNs timeoutUs reply)) = inTxBurst s"
  "inTxBurst (snd (activateStream s direction flags timeNs numElems)) = inTxBurst s"
  "inTxBurst (snd (snd (snd (readStreamStatus s)))) = inTxBurst s"
  "setupStream P cfg_ret en_ret s direction format channels args = (Inr (h, s'), evs) \<Longrightarrow>
     inTxBurst s' = inTxBurst s"
  by (auto simp: readStream_def activateStream_def readStreamStatus_def setupStream_def Let_def
      split: if_splits)

lemma sendTxEndBurst_first_try:
  "sendTxEndBurst s (sconst (tx_answer 0 st n)) =
     Some (s\<lparr>inTxBurst := False\<rparr>,
           [SyncTx zero_block 2 0 BLADERF_META_FLAG_TX_BURST_END 1000 0],
           sconst (tx_answer 0 st n))"
proof -
  have "sendTxEndBurst_loop 0 (sconst (tx_answer 0 st n)) [] =
          Some ([] @ burst_end_trace 0 (sconst (tx_answer 0 st n)) 0,
                sdrop (Suc 0) (sconst (tx_answer 0 st n)))"
    by (rule loop_Some) (simp_all add: tx_answer_def)
  then show ?thesis
    by (simp add: sendTxEndBurst_def tx_answer_def)
qed

lemma timeout_ms: "ucast (c_div (1000 :: c_long) 1000) = (1 :: c_uint)"
  by (simp add: c_div_def signed_divide_int_def)

lemma writeStream_example_open:
  "writeStream ref_platform idle zero_block 10 0 0 1000 (sconst (tx_answer 0 0 5)) =
     Some \<lparr>c_ret = 10, c_state = idle\<lparr>inTxBurst := True\<rparr>,
           c_events = [SyncTx zero_block 10 0 5 1 0],
           c_replies = sconst (tx_answer 0 0 5)\<rparr>"
  by (simp add: writeStream_def Let_def timeout_ms idle_def tx_answer_def soapy_consts
      bladerf_consts)

lemma writeStream_example_end:
  "writeStream ref_platform idle zero_block 10 SOAPY_SDR_END_BURST 0 1000 (sconst (tx_answer 0 0 0)) =
     Some \<lparr>c_ret = 10, c_state = idle,
           c_events = [SyncTx zero_block 10 0 5 1 0,
                       SyncTx zero_block 2 0 BLADERF_META_FLAG_TX_BURST_END 1000 0],
           c_replies = sconst (tx_answer 0 0 0)\<rparr>"
proof -
  have t: "tx_ret (tx_answer 0 0 0) = 0" "tx_status (tx_answer 0 0 0) = 0"
    by (simp_all add: tx_answer_def)
  show ?thesis
    by (simp add: writeStream_def Let_def timeout_ms sendTxEndBurst_first_try t idle_def
        soapy_consts BLADERF_ERR_TIMEOUT_def BLADERF_META_FLAG_TX_NOW_def
        BLADERF_META_FLAG_TX_BURST_START_def BLADERF_META_STATUS_UNDERRUN_def)
qed

lemma writeStream_example_end_open:
  "writeStream ref_platform (idle\<lparr>inTxBurst := True\<rparr>) zero_block 10 SOAPY_SDR_END_BURST 0 1000
       (sconst (tx_answer 0 0 0)) =
     Some \<lparr>c_ret = 10, c_state = idle,
           c_events = [SyncTx zero_block 10 0 4 1 0,
                       SyncTx zero_block 2 0 BLADERF_META_FLAG_TX_BURST_END 1000 0],
           c_replies = sconst (tx_answer 0 0 0)\<rparr>"
proof -
  have t: "tx_ret (tx_answer 0 0 0) = 0" "tx_status (tx_answer 0 0 0) = 0"
    by (simp_all add: tx_answer_def)
  show ?thesis
    by (simp add: writeStream_def Let_def timeout_ms sendTxEndBurst_first_try t idle_def
        soapy_consts BLADERF_ERR_TIMEOUT_def BLADERF_META_FLAG_TX_NOW_def
        BLADERF_META_FLAG_TX_BURST_START_def BLADERF_META_STATUS_UNDERRUN_def)
qed

lemma deactivateStream_example:
  "deactivateStream (idle\<lparr>inTxBurst := True\<rparr>) SOAPY_SDR_TX 0 (sconst (tx_answer 0 0 0)) =
     Some \<lparr>c_ret = 0, c_state = idle,
           c_events = [SyncTx zero_block 2 0 BLADERF_META_FLAG_TX_BURST_END 1000 0],
           c_replies = sconst (tx_answer 0 0 0)\<rparr>"
  by (simp add: deactivateStream_def Let_def sendTxEndBurst_first_try idle_def soapy_consts)

text \<open>
  C5, as the code has it. A transmit call whose transfer times out or fails returns
  \<open>SOAPY_SDR_TIMEOUT\<close> or \<open>SOAPY_SDR_STREAM_ERROR\<close> and leaves the burst flag as it was.
  A successful transmit without the end-of-burst flag returns with the burst flag true.
  A successful transmit with the end-of-burst flag runs the burst-end operation: as soon
  as one of the following replies of the device is a success the call returns, with the
  burst flag false and a burst-end transfer that returned 0 among the calls it made,
  whether or not a burst was open before; while every following reply is a failure it
  does not return. \<open>deactivateStream\<close> of the transmit direction with a burst open
  does the same. Where \<open>writeStream\<close> or \<open>deactivateStream\<close> turns a true burst flag
  into a false one, a burst-end transfer that returned 0 is among the calls it made, and
  \<open>readStream\<close>, \<open>activateStream\<close>, \<open>readStreamStatus\<close> and \<open>setupStream\<close> do not
  change the flag.
\<close>

theorem burst_flag_changes:
  "(tx_ret (shd rs) \<noteq> 0 \<longrightarrow>
      (\<exists>r. writeStream P s buffs numElems flags timeNs timeoutUs rs = Some r
         \<and> inTxBurst (c_state r) = inTxBurst s
         \<and> c_ret r = (if tx_ret (shd rs) = BLADERF_ERR_TIMEOUT then SOAPY_SDR_TIMEOUT
                       else SOAPY_SDR_STREAM_ERROR)))
   \<and> (tx_ret (shd rs) = 0 \<and> flags AND SOAPY_SDR_END_BURST = 0 \<longrightarrow>
      (\<exists>r. writeStream P s buffs numElems flags timeNs timeoutUs rs = Some r
         \<and> inTxBurst (c_state r)))
   \<and> (tx_ret (shd rs) = 0 \<and> flags AND SOAPY_SDR_END_BURST \<noteq> 0 \<and> tx_ret (stl rs !! n) = 0 \<longrightarrow>
      (\<exists>r. writeStream P s buffs numElems flags timeNs timeoutUs rs = Some r
         \<and> \<not> inTxBurst (c_state r)
         \<and> (\<exists>t. SyncTx zero_block 2 t BLADERF_META_FLAG_TX_BURST_END 1000 0 \<in> set (c_events r))))
   \<and> (tx_ret (shd rs) = 0 \<and> flags AND SOAPY_SDR_END_BURST \<noteq> 0
       \<and> (\<forall>i. tx_ret (stl rs !! i) \<noteq> 0) \<longrightarrow>
      writeStream P s buffs numElems flags timeNs timeoutUs rs = None)
   \<and> (tx_ret (shd rs) = 0 \<and> flags AND SOAPY_SDR_END_BURST \<noteq> 0
       \<and> writeStream P s buffs numElems flags timeNs timeoutUs rs = Some r \<longrightarrow>
      \<not> inTxBurst (c_state r)
      \<and> (\<exists>t. SyncTx zero_block 2 t BLADERF_META_FLAG_TX_BURST_END 1000 0 \<in> set (c_events r)))
   \<and> (inTxBurst s \<and> writeStream P s buffs numElems flags timeNs timeoutUs rs = Some r
       \<and> \<not> inTxBurst (c_state r) \<longrightarrow>
      (\<exists>t. SyncTx zero_block 2 t BLADERF_META_FLAG_TX_BURST_END 1000 0 \<in> set (c_events r)))
   \<and> (inTxBurst s \<and> tx_ret (rs !! n) = 0 \<longrightarrow>
      (\<exists>r. deactivateStream s SOAPY_SDR_TX 0 rs = Some r
         \<and> \<not> inTxBurst (c_state r) \<and> c_ret r = 0
         \<and> (\<exists>t. SyncTx zero_block 2 t BLADERF_META_FLAG_TX_BURST_END 1000 0 \<in> set (c_events r))))
   \<and> (inTxBurst s \<and> (\<forall>i. tx_ret (rs !! i) \<noteq> 0) \<longrightarrow>
      deactivateStream s SOAPY_SDR_TX 0 rs = None)
   \<and> (inTxBurst s \<and> deactivateStream s direction dflags rs = Some r'
       \<and> \<not> inTxBurst (c_state r') \<longrightarrow>
      (\<exists>t. SyncTx zero_block 2 t BLADERF_META_FLAG_TX_BURST_END 1000 0 \<in> set (c_events r')))
   \<and> inTxBurst (r_state (readStream P s rbuffs rnumElems rflags rtimeNs rtimeoutUs reply)) = inTxBurst s
   \<and> inTxBurst (snd (activateStream s direction aflags atimeNs anumElems)) = inTxBurst s
   \<and> inTxBurst (snd (snd (snd (readStreamStatus s)))) = inTxBurst s
   \<and> (case fst (setupStream P cfg_ret en_ret s direction format channels args) of
         Inl e \<Rightarrow> True | Inr hs \<Rightarrow> inTxBurst (snd hs) = inTxBurst s)"
proof (intro conjI impI)
  assume "tx_ret (shd rs) \<noteq> 0"
  then show "\<exists>r. writeStream P s buffs numElems flags timeNs timeoutUs rs = Some r
         \<and> inTxBurst (c_state r) = inTxBurst s
         \<and> c_ret r = (if tx_ret (shd rs) = BLADERF_ERR_TIMEOUT then SOAPY_SDR_TIMEOUT
                       else SOAPY_SDR_STREAM_ERROR)"
    by (rule writeStream_failed)
next
  assume "tx_ret (shd rs) = 0 \<and> flags AND SOAPY_SDR_END_BURST = 0"
  then show "\<exists>r. writeStream P s buffs numElems flags timeNs timeoutUs rs = Some r
         \<and> inTxBurst (c_state r)"
    using writeStream_open by blast
next
  assume "tx_ret (shd rs) = 0 \<and> flags AND SOAPY_SDR_END_BURST \<noteq> 0 \<and> tx_ret (stl rs !! n) = 0"
  then show "\<exists>r. writeStream P s buffs numElems flags timeNs timeoutUs rs = Some r
         \<and> \<not> inTxBurst (c_state r)
         \<and> (\<exists>t. SyncTx zero_block 2 t BLADERF_META_FLAG_TX_BURST_END 1000 0 \<in> set (c_events r))"
    using writeStream_returns_end [of rs flags n P s buffs numElems timeNs timeoutUs] by blast
next
  assume "tx_ret (shd rs) = 0 \<and> flags AND SOAPY_SDR_END_BURST \<noteq> 0
       \<and> (\<forall>i. tx_ret (stl rs !! i) \<noteq> 0)"
  then show "writeStream P s buffs numElems flags timeNs timeoutUs rs = None"
    using writeStream_hangs by blast
next
  assume a: "tx_ret (shd rs) = 0 \<and> flags AND SOAPY_SDR_END_BURST \<noteq> 0
       \<and> writeStream P s buffs numElems flags timeNs timeoutUs rs = Some r"
  then show "\<not> inTxBurst (c_state r)"
    using writeStream_end by blast
  from a show "\<exists>t. SyncTx zero_block 2 t BLADERF_META_FLAG_TX_BURST_END 1000 0 \<in> set (c_events r)"
    using writeStream_end by blast
next
  assume "inTxBurst s \<and> writeStream P s buffs numElems flags timeNs timeoutUs rs = Some r
       \<and> \<not> inTxBurst (c_state r)"
  then show "\<exists>t. SyncTx zero_block 2 t BLADERF_META_FLAG_TX_BURST_END 1000 0 \<in> set (c_events r)"
    using writeStream_closed_by_end by blast
next
  assume "inTxBurst s \<and> tx_ret (rs !! n) = 0"
  then show "\<exists>r. deactivateStream s SOAPY_SDR_TX 0 rs = Some r
         \<and> \<not> inTxBurst (c_state r) \<and> c_ret r = 0
         \<and> (\<exists>t. SyncTx zero_block 2 t BLADERF_META_FLAG_TX_BURST_END 1000 0 \<in> set (c_events r))"
    using deactivateStream_returns [of s rs n] by blast
next
  assume "inTxBurst s \<and> (\<forall>i. tx_ret (rs !! i) \<noteq> 0)"
  then show "deactivateStream s SOAPY_SDR_TX 0 rs = None"
    using deactivateStream_hangs by blast
next
  assume "inTxBurst s \<and> deactivateStream s direction dflags rs = Some r'
       \<and> \<not> inTxBurst (c_state r')"
  then show "\<exists>t. SyncTx zero_block 2 t BLADERF_META_FLAG_TX_BURST_END 1000 0 \<in> set (c_events r')"
    using deactivateStream_closed_by_end by blast
next
  show "case fst (setupStream P cfg_ret en_ret s direction format channels args) of
         Inl e \<Rightarrow> True | Inr hs \<Rightarrow> inTxBurst (snd hs) = inTxBurst s"
    by (cases "setupStream P cfg_ret en_ret s direction format channels args")
       (auto split: sum.splits dest: other_calls_keep_flag(4))
qed (simp_all add: other_calls_keep_flag)

theorem burst_flag_changes_witness:
  "(\<exists>r. writeStream ref_platform idle zero_block 10 0 0 1000 (sconst (tx_answer BLADERF_ERR_TIMEOUT 0 0)) = Some r
        \<and> inTxBurst (c_state r) = inTxBurst idle \<and> c_ret r = SOAPY_SDR_TIMEOUT)
   \<and> (\<exists>r. writeStream ref_platform idle zero_block 10 0 0 1000 (sconst (tx_answer (- 1) 0 0)) = Some r
        \<and> inTxBurst (c_state r) = inTxBurst idle \<and> c_ret r = SOAPY_SDR_STREAM_ERROR)
   \<and> (\<exists>r. writeStream ref_platform idle zero_block 10 0 0 1000 (sconst (tx_answer 0 0 0)) = Some r
        \<and> inTxBurst (c_state r))
   \<and> inTxBurst (idle\<lparr>inTxBurst := True\<rparr>)
   \<and> (\<exists>r. writeStream ref_platform (idle\<lparr>inTxBurst := True\<rparr>) zero_block 10 SOAPY_SDR_END_BURST 0 1000
             (tx_answer 0 0 0 ## tx_answer BLADERF_ERR_TIMEOUT 0 0 ## sconst (tx_answer 0 0 0)) = Some r
        \<and> \<not> inTxBurst (c_state r)
        \<and> (\<exists>t. SyncTx zero_block 2 t BLADERF_META_FLAG_TX_BURST_END 1000 0 \<in> set (c_events r)))
   \<and> writeStream ref_platform (idle\<lparr>inTxBurst := True\<rparr>) zero_block 10 SOAPY_SDR_END_BURST 0 1000
        (tx_answer 0 0 0 ## sconst (tx_answer (- 1) 0 0)) = None
   \<and> (\<exists>r. deactivateStream (idle\<lparr>inTxBurst := True\<rparr>) SOAPY_SDR_TX 0
             (tx_answer BLADERF_ERR_TIMEOUT 0 0 ## sconst (tx_answer 0 0 0)) = Some r
        \<and> \<not> inTxBurst (c_state r) \<and> c_ret r = 0
        \<and> (\<exists>t. SyncTx zero_block 2 t BLADERF_META_FLAG_TX_BURST_END 1000 0 \<in> set (c_events r)))
   \<and> deactivateStream (idle\<lparr>inTxBurst := True\<rparr>) SOAPY_SDR_TX 0 (sconst (tx_answer (- 1) 0 0)) = None
   \<and> writeStream ref_platform (idle\<lparr>inTxBurst := True\<rparr>) zero_block 10 SOAPY_SDR_END_BURST 0 1000
        (sconst (tx_answer 0 0 0)) =
       Some \<lparr>c_ret = 10, c_state = idle,
             c_events = [SyncTx zero_block 10 0 4 1 0,
                         SyncTx zero_block 2 0 BLADERF_META_FLAG_TX_BURST_END 1000 0],
             c_replies = sconst (tx_answer 0 0 0)\<rparr>
   \<and> deactivateStream (idle\<lparr>inTxBurst := True\<rparr>) SOAPY_SDR_TX 0 (sconst (tx_answer 0 0 0)) =
       Some \<lparr>c_ret = 0, c_state = idle,
             c_events = [SyncTx zero_block 2 0 BLADERF_META_FLAG_TX_BURST_END 1000 0],
             c_replies = sconst (tx_answer 0 0 0)\<rparr>
   \<and> \<not> inTxBurst idle
   \<and> (\<exists>t. SyncTx zero_block 2 t BLADERF_META_FLAG_TX_BURST_END 1000 0
          \<in> set [SyncTx zero_block 10 0 4 1 0,
                  SyncTx zero_block 2 0 BLADERF_META_FLAG_TX_BURST_END 1000 0])"
proof -
  let ?open = "idle\<lparr>inTxBurst := True\<rparr>"
  let ?retry = "tx_answer 0 0 0 ## tx_answer BLADERF_ERR_TIMEOUT 0 0 ## sconst (tx_answer 0 0 0)"
  let ?never = "tx_answer 0 0 0 ## sconst (tx_answer (- 1) 0 0)"
  let ?late = "tx_answer BLADERF_ERR_TIMEOUT 0 0 ## sconst (tx_answer 0 0 0)"
  have f1: "tx_ret (shd (sconst (tx_answer BLADERF_ERR_TIMEOUT 0 0))) \<noteq> 0"
    and f1': "tx_ret (shd (sconst (tx_answer BLADERF_ERR_TIMEOUT 0 0))) = BLADERF_ERR_TIMEOUT"
    and f2: "tx_ret (shd (sconst (tx_answer (- 1) 0 0))) \<noteq> 0"
    and f2': "tx_ret (shd (sconst (tx_answer (- 1) 0 0))) \<noteq> BLADERF_ERR_TIMEOUT"
    and f3: "tx_ret (shd (sconst (tx_answer 0 0 0))) = 0" "(0 :: c_int) AND SOAPY_SDR_END_BURST = 0"
    and f4: "SOAPY_SDR_END_BURST AND SOAPY_SDR_END_BURST \<noteq> 0"
    and f5: "tx_ret (shd ?retry) = 0" "tx_ret (stl ?retry !! Suc 0) = 0"
    and f6: "tx_ret (shd ?never) = 0" "\<forall>i. tx_ret (stl ?never !! i) \<noteq> 0"
    and f7: "tx_ret (?late !! Suc 0) = 0"
    and f8: "\<forall>i. tx_ret (sconst (tx_answer (- 1) 0 0) !! i) \<noteq> 0"
    by (simp_all add: tx_answer_def BLADERF_ERR_TIMEOUT_def SOAPY_SDR_END_BURST_def)
  have i: "inTxBurst ?open" "\<not> inTxBurst idle"
    by (simp_all add: idle_def)
  note w = writeStream_example_end_open
  note d = deactivateStream_example
  from burst_flag_changes [where rs = "sconst (tx_answer BLADERF_ERR_TIMEOUT 0 0)"
      and P = ref_platform and s = idle and buffs = zero_block and numElems = 10 and flags = 0
      and timeNs = 0 and timeoutUs = 1000] f1 f1'
  have a: "\<exists>r. writeStream ref_platform idle zero_block 10 0 0 1000
                  (sconst (tx_answer BLADERF_ERR_TIMEOUT 0 0)) = Some r
        \<and> inTxBurst (c_state r) = inTxBurst idle \<and> c_ret r = SOAPY_SDR_TIMEOUT"
    by simp
  from burst_flag_changes [where rs = "sconst (tx_answer (- 1) 0 0)"
      and P = ref_platform and s = idle and buffs = zero_block and numElems = 10 and flags = 0
      and timeNs = 0 and timeoutUs = 1000] f2 f2'
  have b: "\<exists>r. writeStream ref_platform idle zero_block 10 0 0 1000 (sconst (tx_answer (- 1) 0 0)) = Some r
        \<and> inTxBurst (c_state r) = inTxBurst idle \<and> c_ret r = SOAPY_SDR_STREAM_ERROR"
    by simp
  from burst_flag_changes [where rs = "sconst (tx_answer 0 0 0)"
      and P = ref_platform and s = idle and buffs = zero_block and numElems = 10 and flags = 0
      and timeNs = 0 and timeoutUs = 1000] f3
  have c: "\<exists>r. writeStream ref_platform idle zero_block 10 0 0 1000 (sconst (tx_answer 0 0 0)) = Some r
        \<and> inTxBurst (c_state r)"
    by simp
  from burst_flag_changes [where rs = ?retry and n = "Suc 0"
      and P = ref_platform and s = ?open and buffs = zero_block and numElems = 10
      and flags = SOAPY_SDR_END_BURST and timeNs = 0 and timeoutUs = 1000] f4 f5
  have g: "\<exists>r. writeStream ref_platform ?open zero_block 10 SOAPY_SDR_END_BURST 0 1000 ?retry = Some r
        \<and> \<not> inTxBurst (c_state r)
        \<and> (\<exists>t. SyncTx zero_block 2 t BLADERF_META_FLAG_TX_BURST_END 1000 0 \<in> set (c_events r))"
    by blast
  from burst_flag_changes [where rs = ?never
      and P = ref_platform and s = ?open and buffs = zero_block and numElems = 10
      and flags = SOAPY_SDR_END_BURST and timeNs = 0 and timeoutUs = 1000] f4 f6
  have h: "writeStream ref_platform ?open zero_block 10 SOAPY_SDR_END_BURST 0 1000 ?never = None"
    by blast
  from burst_flag_changes [where rs = ?late and n = "Suc 0" and s = ?open
      and P = ref_platform and buffs = zero_block and numElems = 10 and flags = 0
      and timeNs = 0 and timeoutUs = 1000] i(1) f7
  have j: "\<exists>r. deactivateStream ?open SOAPY_SDR_TX 0 ?late = Some r
        \<and> \<not> inTxBurst (c_state r) \<and> c_ret r = 0
        \<and> (\<exists>t. SyncTx zero_block 2 t BLADERF_META_FLAG_TX_BURST_END 1000 0 \<in> set (c_events r))"
    by blast
  from burst_flag_changes [where rs = "sconst (tx_answer (- 1) 0 0)" and s = ?open
      and P = ref_platform and buffs = zero_block and numElems = 10 and flags = 0
      and timeNs = 0 and timeoutUs = 1000] i(1) f8
  have k: "deactivateStream ?open SOAPY_SDR_TX 0 (sconst (tx_answer (- 1) 0 0)) = None"
    by blast
  from burst_flag_changes [where rs = "sconst (tx_answer 0 0 0)" and P = ref_platform
      and s = ?open and buffs = zero_block and numElems = 10 and flags = SOAPY_SDR_END_BURST
      and timeNs = 0 and timeoutUs = 1000
      and r = "\<lparr>c_ret = 10, c_state = idle,
             c_events = [SyncTx zero_block 10 0 4 1 0,
                         SyncTx zero_block 2 0 BLADERF_META_FLAG_TX_BURST_END 1000 0],
             c_replies = sconst (tx_answer 0 0 0)\<rparr>"
      and direction = SOAPY_SDR_TX and dflags = 0
      and r' = "\<lparr>c_ret = 0, c_state = idle,
             c_events = [SyncTx zero_block 2 0 BLADERF_META_FLAG_TX_BURST_END 1000 0],
             c_replies = sconst (tx_answer 0 0 0)\<rparr>"] w d i f3(1) f4
  have e: "\<exists>t. SyncTx zero_block 2 t BLADERF_META_FLAG_TX_BURST_END 1000 0
          \<in> set [SyncTx zero_block 10 0 4 1 0,
                  SyncTx zero_block 2 0 BLADERF_META_FLAG_TX_BURST_END 1000 0]"
    by simp
  from a b c i g h j k w d e show ?thesis by blast
qed

text \<open>
  C5 as stated fails for a successful transmit that carries the end-of-burst flag: the
  call returns the element count and the burst flag is false after it.
\<close>

theorem burst_flag_counterexample:
  "writeStream ref_platform idle zero_block 10 SOAPY_SDR_END_BURST 0 1000 (sconst (tx_answer 0 0 0)) =
     Some \<lparr>c_ret = 10, c_state = idle,
           c_events = [SyncTx zero_block 10 0 5 1 0,
                       SyncTx zero_block 2 0 BLADERF_META_FLAG_TX_BURST_END 1000 0],
           c_replies = sconst (tx_answer 0 0 0)\<rparr>
   \<and> \<not> inTxBurst idle"
  by (simp add: writeStream_example_end) (simp add: idle_def)

lemma writeStream_success_ret:
  assumes "tx_ret (shd rs) = 0"
      and "writeStream P s buffs numElems flags timeNs timeoutUs rs = Some r"
  shows "c_ret r = ucast numElems"
proof (cases "flags AND SOAPY_SDR_END_BURST = 0")
  case True
  from writeStream_open [OF assms(1) True, of P s buffs numElems timeNs timeoutUs] assms(2)
  show ?thesis by auto
next
  case False
  from writeStream_end [OF assms(1) False assms(2)] show ?thesis by blast
qed

text \<open>
  C4, as the code has it. A receive call whose transfer succeeds returns the actual
  count of the metadata. A transmit call whose transfer succeeds returns the element
  count it was called with, converted to \<open>int\<close>, whatever the metadata holds: it
  returns at once without the end-of-burst flag, and with the flag as soon as one of
  the following replies of the device is a success; while every following reply is a
  failure the call does not return.
\<close>

theorem transfer_return_values:
  "(rxCmds s \<noteq> [] \<and> \<not> rxOverflow s \<and> rx_ret reply = 0 \<longrightarrow>
      r_ret (readStream P s rbuffs rnumElems rflags rtimeNs rtimeoutUs reply) = rx_actual_count reply)
   \<and> (tx_ret (shd rs) = 0 \<and> flags AND SOAPY_SDR_END_BURST = 0 \<longrightarrow>
      (\<exists>r. writeStream P s buffs numElems flags timeNs timeoutUs rs = Some r
         \<and> c_ret r = ucast numElems))
   \<and> (tx_ret (shd rs) = 0 \<and> flags AND SOAPY_SDR_END_BURST \<noteq> 0 \<and> tx_ret (stl rs !! n) = 0 \<longrightarrow>
      (\<exists>r. writeStream P s buffs numElems flags timeNs timeoutUs rs = Some r
         \<and> c_ret r = ucast numElems))
   \<and> (tx_ret (shd rs) = 0 \<and> flags AND SOAPY_SDR_END_BURST \<noteq> 0
       \<and> (\<forall>i. tx_ret (stl rs !! i) \<noteq> 0) \<longrightarrow>
      writeStream P s buffs numElems flags timeNs timeoutUs rs = None)
   \<and> (tx_ret (shd rs) = 0 \<and> writeStream P s buffs numElems flags timeNs timeoutUs rs = Some r \<longrightarrow>
      c_ret r = ucast numElems)"
proof (intro conjI impI)
  assume "rxCmds s \<noteq> [] \<and> \<not> rxOverflow s \<and> rx_ret reply = 0"
  then show "r_ret (readStream P s rbuffs rnumElems rflags rtimeNs rtimeoutUs reply) =
               rx_actual_count reply"
    by (simp add: readStream_def Let_def BLADERF_ERR_TIMEOUT_def)
next
  assume "tx_ret (shd rs) = 0 \<and> flags AND SOAPY_SDR_END_BURST = 0"
  then show "\<exists>r. writeStream P s buffs numElems flags timeNs timeoutUs rs = Some r
         \<and> c_ret r = ucast numElems"
    using writeStream_open [of rs flags P s buffs numElems timeNs timeoutUs] by blast
next
  assume "tx_ret (shd rs) = 0 \<and> flags AND SOAPY_SDR_END_BURST \<noteq> 0 \<and> tx_ret (stl rs !! n) = 0"
  then show "\<exists>r. writeStream P s buffs numElems flags timeNs timeoutUs rs = Some r
         \<and> c_ret r = ucast numElems"
    using writeStream_returns_end [of rs flags n P s buffs numElems timeNs timeoutUs] by blast
next
  assume "tx_ret (shd rs) = 0 \<and> flags AND SOAPY_SDR_END_BURST \<noteq> 0
       \<and> (\<forall>i. tx_ret (stl rs !! i) \<noteq> 0)"
  then show "writeStream P s buffs numElems flags timeNs timeoutUs rs = None"
    using writeStream_hangs by blast
next
  assume "tx_ret (shd rs) = 0 \<and> writeStream P s buffs numElems flags timeNs timeoutUs rs = Some r"
  then show "c_ret r = ucast numElems"
    using writeStream_success_ret by blast
qed

theorem transfer_return_values_witness:
  "rxCmds streaming \<noteq> [] \<and> \<not> rxOverflow streaming \<and> rx_ret (rx_answer 0 0 7) = 0
   \<and> r_ret (readStream ref_platform streaming zero_block 16 0 0 1000 (rx_answer 0 0 7)) = 7
   \<and> tx_ret (shd (sconst (tx_answer 0 0 5))) = 0
   \<and> (\<exists>r. writeStream ref_platform streaming zero_block 10 0 0 1000 (sconst (tx_answer 0 0 5)) = Some r
        \<and> c_ret r = 10)
   \<and> (\<exists>r. writeStream ref_platform streaming zero_block 10 SOAPY_SDR_END_BURST 0 1000
             (tx_answer 0 0 5 ## tx_answer (- 1) 0 0 ## sconst (tx_answer 0 0 0)) = Some r
        \<and> c_ret r = 10)
   \<and> writeStream ref_platform streaming zero_block 10 SOAPY_SDR_END_BURST 0 1000
        (tx_answer 0 0 5 ## sconst (tx_answer BLADERF_ERR_TIMEOUT 0 0)) = None
   \<and> writeStream ref_platform streaming zero_block 10 0 0 1000 (sconst (tx_answer 0 0 5)) =
       Some \<lparr>c_ret = 10, c_state = streaming\<lparr>inTxBurst := True\<rparr>,
             c_events = [SyncTx zero_block 10 0 5 1 0],
             c_replies = sconst (tx_answer 0 0 5)\<rparr>"
proof -
  let ?retry = "tx_answer 0 0 5 ## tx_answer (- 1) 0 0 ## sconst (tx_answer 0 0 0)"
  let ?never = "tx_answer 0 0 5 ## sconst (tx_answer BLADERF_ERR_TIMEOUT 0 0)"
  have h: "rxCmds streaming \<noteq> []" "\<not> rxOverflow streaming" "rx_ret (rx_answer 0 0 7) = 0"
    "rx_actual_count (rx_answer 0 0 7) = 7" "tx_ret (shd (sconst (tx_answer 0 0 5))) = 0"
    by (simp_all add: streaming_def idle_def rx_answer_def tx_answer_def)
  have f: "(0 :: c_int) AND SOAPY_SDR_END_BURST = 0"
      "SOAPY_SDR_END_BURST AND SOAPY_SDR_END_BURST \<noteq> 0"
      "tx_ret (shd ?retry) = 0" "tx_ret (stl ?retry !! Suc 0) = 0"
      "tx_ret (shd ?never) = 0" "\<forall>i. tx_ret (stl ?never !! i) \<noteq> 0"
    by (simp_all add: tx_answer_def BLADERF_ERR_TIMEOUT_def SOAPY_SDR_END_BURST_def)
  have u: "ucast (10 :: c_size_t) = (10 :: c_int)"
    by simp
  have w: "writeStream ref_platform streaming zero_block 10 0 0 1000 (sconst (tx_answer 0 0 5)) =
       Some \<lparr>c_ret = 10, c_state = streaming\<lparr>inTxBurst := True\<rparr>,
             c_events = [SyncTx zero_block 10 0 5 1 0],
             c_replies = sconst (tx_answer 0 0 5)\<rparr>"
    by (simp add: writeStream_def Let_def timeout_ms streaming_def idle_def tx_answer_def soapy_consts
      bladerf_consts)
  from transfer_return_values [where s = streaming and reply = "rx_answer 0 0 7"
      and P = ref_platform and rbuffs = zero_block and rnumElems = 16 and rflags = 0
      and rtimeNs = 0 and rtimeoutUs = 1000] h
  have a: "r_ret (readStream ref_platform streaming zero_block 16 0 0 1000 (rx_answer 0 0 7)) = 7"
    by simp
  from transfer_return_values [where rs = "sconst (tx_answer 0 0 5)" and P = ref_platform
      and s = streaming and buffs = zero_block and numElems = 10 and flags = 0 and timeNs = 0
      and timeoutUs = 1000
      and r = "\<lparr>c_ret = 10, c_state = streaming\<lparr>inTxBurst := True\<rparr>,
             c_events = [SyncTx zero_block 10 0 5 1 0],
             c_replies = sconst (tx_answer 0 0 5)\<rparr>"] h(5) f(1) w
  have b: "\<exists>r. writeStream ref_platform streaming zero_block 10 0 0 1000
                  (sconst (tx_answer 0 0 5)) = Some r \<and> c_ret r = 10"
    by simp
  from transfer_return_values [where rs = ?retry and n = "Suc 0" and P = ref_platform
      and s = streaming and buffs = zero_block and numElems = 10 and flags = SOAPY_SDR_END_BURST
      and timeNs = 0 and timeoutUs = 1000] f(2,3,4) u
  have c: "\<exists>r. writeStream ref_platform streaming zero_block 10 SOAPY_SDR_END_BURST 0 1000 ?retry = Some r
        \<and> c_ret r = 10"
    by metis
  from transfer_return_values [where rs = ?never and P = ref_platform
      and s = streaming and buffs = zero_block and numElems = 10 and flags = SOAPY_SDR_END_BURST
      and timeNs = 0 and timeoutUs = 1000] f(2,5,6)
  have d: "writeStream ref_platform streaming zero_block 10 SOAPY_SDR_END_BURST 0 1000 ?never = None"
    by blast
  from h a b c d w show ?thesis by blast
qed

text \<open>
  C4 as stated fails for transmit: called with 10 elements and answered with an actual
  count of 5 in the metadata, \<open>writeStream\<close> returns 10.
\<close>

theorem writeStream_return_counterexample:
  "writeStream ref_platform idle zero_block 10 0 0 1000 (sconst (tx_answer 0 0 5)) =
     Some \<lparr>c_ret = 10, c_state = idle\<lparr>inTxBurst := True\<rparr>,
           c_events = [SyncTx zero_block 10 0 5 1 0],
           c_replies = sconst (tx_answer 0 0 5)\<rparr>
   \<and> tx_actual_count (shd (sconst (tx_answer 0 0 5))) = 5"
  by (simp add: writeStream_example_open) (simp add: tx_answer_def)

subsection \<open>The overflow latch\<close>

lemma readStream_latched:
  "rxCmds s \<noteq> [] \<Longrightarrow> rxOverflow s \<Longrightarrow>
   readStream P s buffs numElems flags timeNs timeoutUs reply =
     \<lparr>r_ret = SOAPY_SDR_OVERFLOW, r_flags = SOAPY_SDR_HAS_TIME,
      r_timeNs = ticks_to_ns P (rxSampRate s) (rxNextTicks s), r_buffs = buffs,
      r_state = s\<lparr>rxOverflow := False\<rparr>, r_events = []\<rparr>"
  by (simp add: readStream_def)

lemma readStream_success_state:
  assumes "rxCmds s \<noteq> []" "\<not> rxOverflow s" "rx_ret reply = 0"
  shows "r_ret (readStream P s buffs numElems flags timeNs timeoutUs reply) = rx_actual_count reply"
    and "rxOverflow (r_state (readStream P s buffs numElems flags timeNs timeoutUs reply)) =
           (rx_status reply AND BLADERF_META_STATUS_OVERRUN \<noteq> 0)"
    and "rx_status reply AND BLADERF_META_STATUS_OVERRUN \<noteq> 0 \<Longrightarrow>
         rxNextTicks (r_state (readStream P s buffs numElems flags timeNs timeoutUs reply)) =
           rx_timestamp reply + ucast (rx_actual_count reply)"
    and "rxSampRate (r_state (readStream P s buffs numElems flags timeNs timeoutUs reply)) =
           rxSampRate s"
  using assms by (simp_all add: readStream_def Let_def BLADERF_ERR_TIMEOUT_def)

lemma readStream_invokes:
  assumes "rxCmds s \<noteq> []" "\<not> rxOverflow s"
  shows "\<exists>n ts fl tmo. take 1 (r_events (readStream P s buffs numElems flags timeNs timeoutUs reply)) =
           [SyncRx n ts fl tmo (rx_ret reply)]"
  using assms by (simp add: readStream_def Let_def)

text \<open>
  C6. When a receive call with a non-empty queue and no latched overflow gets a
  successful transfer that reports an overrun, the latch is set and the tick position
  recorded is the timestamp plus the actual count. If the queue is still non-empty, the
  next call returns \<open>SOAPY_SDR_OVERFLOW\<close> with the flag \<open>SOAPY_SDR_HAS_TIME\<close> and that
  position converted to nanoseconds, clears the latch, changes nothing else and calls
  nothing of the device. The call after it calls the device again and, on success,
  returns the actual count.
\<close>

theorem overflow_reported_on_next_call:
  assumes "rxCmds s \<noteq> []" and "\<not> rxOverflow s"
      and "rx_ret reply1 = 0" and "rx_status reply1 AND BLADERF_META_STATUS_OVERRUN \<noteq> 0"
      and "s1 = r_state (readStream P s buffs1 numElems1 flags1 timeNs1 timeoutUs1 reply1)"
      and "rxCmds s1 \<noteq> []"
      and "s2 = r_state (readStream P s1 buffs2 numElems2 flags2 timeNs2 timeoutUs2 reply2)"
  shows "rxOverflow s1 \<and> rxNextTicks s1 = rx_timestamp reply1 + ucast (rx_actual_count reply1)
       \<and> readStream P s1 buffs2 numElems2 flags2 timeNs2 timeoutUs2 reply2 =
           \<lparr>r_ret = SOAPY_SDR_OVERFLOW, r_flags = SOAPY_SDR_HAS_TIME,
            r_timeNs = ticks_to_ns P (rxSampRate s)
                         (rx_timestamp reply1 + ucast (rx_actual_count reply1)),
            r_buffs = buffs2, r_state = s1\<lparr>rxOverflow := False\<rparr>, r_events = []\<rparr>
       \<and> (\<exists>n ts fl tmo.
            take 1 (r_events (readStream P s2 buffs3 numElems3 flags3 timeNs3 timeoutUs3 reply3)) =
              [SyncRx n ts fl tmo (rx_ret reply3)])
       \<and> (rx_ret reply3 = 0 \<longrightarrow>
            r_ret (readStream P s2 buffs3 numElems3 flags3 timeNs3 timeoutUs3 reply3) =
              rx_actual_count reply3)"
proof -
  note a = readStream_success_state [OF assms(1,2,3), of P buffs1 numElems1 flags1 timeNs1 timeoutUs1]
  have l: "rxOverflow s1" using a(2) assms(4,5) by simp
  have t: "rxNextTicks s1 = rx_timestamp reply1 + ucast (rx_actual_count reply1)"
    using a(3) assms(4,5) by simp
  have r: "rxSampRate s1 = rxSampRate s" using a(4) assms(5) by simp
  have c2: "readStream P s1 buffs2 numElems2 flags2 timeNs2 timeoutUs2 reply2 =
           \<lparr>r_ret = SOAPY_SDR_OVERFLOW, r_flags = SOAPY_SDR_HAS_TIME,
            r_timeNs = ticks_to_ns P (rxSampRate s)
                         (rx_timestamp reply1 + ucast (rx_actual_count reply1)),
            r_buffs = buffs2, r_state = s1\<lparr>rxOverflow := False\<rparr>, r_events = []\<rparr>"
    using readStream_latched [OF assms(6) l] by (simp add: t r)
  have s2: "s2 = s1\<lparr>rxOverflow := False\<rparr>" using assms(7) c2 by simp
  have q2: "rxCmds s2 \<noteq> []" "\<not> rxOverflow s2" using s2 assms(6) by simp_all
  show ?thesis
    using l t c2 readStream_invokes [OF q2] readStream_success_state(1) [OF q2] by blast
qed

theorem overflow_reported_on_next_call_witness:
  "rxCmds streaming \<noteq> [] \<and> \<not> rxOverflow streaming
   \<and> rx_ret (rx_answer 0 BLADERF_META_STATUS_OVERRUN 16) = 0
   \<and> rx_status (rx_answer 0 BLADERF_META_STATUS_OVERRUN 16) AND BLADERF_META_STATUS_OVERRUN \<noteq> 0
   \<and> r_state (readStream ref_platform streaming zero_block 16 0 0 1000
                (rx_answer 0 BLADERF_META_STATUS_OVERRUN 16)) =
       streaming\<lparr>rxNextTicks := 16, rxOverflow := True\<rparr>
   \<and> readStream ref_platform (streaming\<lparr>rxNextTicks := 16, rxOverflow := True\<rparr>) zero_block 16 0 0
        1000 (rx_answer 0 0 16) =
       \<lparr>r_ret = SOAPY_SDR_OVERFLOW, r_flags = SOAPY_SDR_HAS_TIME, r_timeNs = 16000,
        r_buffs = zero_block, r_state = streaming\<lparr>rxNextTicks := 16\<rparr>, r_events = []\<rparr>
   \<and> r_ret (readStream ref_platform (streaming\<lparr>rxNextTicks := 16\<rparr>) zero_block 16 0 0 1000
              (rx_answer 0 0 7)) = 7"
proof -
  let ?s1 = "streaming\<lparr>rxNextTicks := 16, rxOverflow := True\<rparr>"
  let ?s2 = "streaming\<lparr>rxNextTicks := 16\<rparr>"
  have h: "rxCmds streaming \<noteq> []" "\<not> rxOverflow streaming"
    "rx_ret (rx_answer 0 BLADERF_META_STATUS_OVERRUN 16) = 0"
    "rx_status (rx_answer 0 BLADERF_META_STATUS_OVERRUN 16) AND BLADERF_META_STATUS_OVERRUN \<noteq> 0"
    by (simp_all add: streaming_def idle_def rx_answer_def BLADERF_META_STATUS_OVERRUN_def)
  have ov: "overlay [] zero_block = zero_block"
    by (simp add: overlay_def)
  have s1: "?s1 = r_state (readStream ref_platform streaming zero_block 16 0 0 1000
                             (rx_answer 0 BLADERF_META_STATUS_OVERRUN 16))"
    by (simp add: readStream_def Let_def streaming_def idle_def rx_answer_def bladerf_consts ov)
  have q1: "rxCmds ?s1 \<noteq> []"
    by (simp add: streaming_def)
  have s2: "?s2 = r_state (readStream ref_platform ?s1 zero_block 16 0 0 1000 (rx_answer 0 0 16))"
    by (simp add: readStream_def streaming_def idle_def)
  have ns: "ticks_to_ns ref_platform (rxSampRate streaming)
              (rx_timestamp (rx_answer 0 BLADERF_META_STATUS_OVERRUN 16)
                 + ucast (rx_actual_count (rx_answer 0 BLADERF_META_STATUS_OVERRUN 16))) = 16000"
    by (simp add: ref_platform_def streaming_def idle_def rx_answer_def signed_divide_int_def)
  have st: "?s1\<lparr>rxOverflow := False\<rparr> = ?s2"
    by (simp add: streaming_def idle_def)
  have a: "rx_ret (rx_answer 0 0 7) = 0" "rx_actual_count (rx_answer 0 0 7) = 7"
    by (simp_all add: rx_answer_def)
  from overflow_reported_on_next_call [OF h s1 q1 s2,
      of zero_block 16 0 0 1000 "rx_answer 0 0 7"] h s1 [symmetric] a
  show ?thesis by (simp add: ns st)
qed

subsection \<open>A finite receive command\<close>

text \<open>
  A successful transfer takes a finite command off the queue when its actual count is
  the whole count of the command, and leaves the queue as it was otherwise.
\<close>

lemma readStream_finite_success:
  assumes "rxCmds s = cmd # q" and "\<not> rxOverflow s" and "cmd_numElems cmd \<noteq> 0"
      and "rx_ret reply = 0"
  shows "rxCmds (r_state (readStream P s buffs numElems flags timeNs timeoutUs reply)) =
           (if ucast (rx_actual_count reply) = cmd_numElems cmd then q else cmd # q)"
  using assms by (auto simp: readStream_def Let_def BLADERF_ERR_TIMEOUT_def word_greater_zero_iff)

text \<open>
  C1, on the code. A command for 100 elements is queued, and three receive calls are
  answered with the actual counts 40, 35 and 25. Each call returns its count and leaves
  the state as it was: the queued command still counts 100 elements after each of them,
  it is still in the queue after the third, whose running total is 100, and every call
  asks the device for 100 elements again. The decrement of line 249 is made on the
  copy of the command that line 182 takes.
\<close>

theorem finite_command_not_consumed:
  "rxCmds finite_rx = [\<lparr>cmd_flags = 0, cmd_timeNs = 0, cmd_numElems = 100\<rparr>]
   \<and> readStream ref_platform finite_rx zero_block 100 0 0 1000 (rx_answer 0 0 40) =
       \<lparr>r_ret = 40, r_flags = SOAPY_SDR_HAS_TIME, r_timeNs = 0, r_buffs = zero_block,
        r_state = finite_rx, r_events = [SyncRx 100 0 BLADERF_META_FLAG_RX_NOW 1 0]\<rparr>
   \<and> readStream ref_platform finite_rx zero_block 100 0 0 1000 (rx_answer 0 0 35) =
       \<lparr>r_ret = 35, r_flags = SOAPY_SDR_HAS_TIME, r_timeNs = 0, r_buffs = zero_block,
        r_state = finite_rx, r_events = [SyncRx 100 0 BLADERF_META_FLAG_RX_NOW 1 0]\<rparr>
   \<and> readStream ref_platform finite_rx zero_block 100 0 0 1000 (rx_answer 0 0 25) =
       \<lparr>r_ret = 25, r_flags = SOAPY_SDR_HAS_TIME, r_timeNs = 0, r_buffs = zero_block,
        r_state = finite_rx, r_events = [SyncRx 100 0 BLADERF_META_FLAG_RX_NOW 1 0]\<rparr>"
proof -
  have ov: "overlay [] zero_block = zero_block"
    by (simp add: overlay_def)
  have tm: "ucast (c_div (1000 :: c_long) 1000) = (1 :: c_uint)"
    by (simp add: c_div_def signed_divide_int_def)
  have ns: "ticks_to_ns ref_platform 1000000 0 = 0" "ns_to_ticks ref_platform 1000000 0 = 0"
    by (simp_all add: ref_platform_def signed_divide_int_def)
  show ?thesis
    by (simp add: finite_rx_def activateStream_def readStream_def Let_def idle_def rx_answer_def
        soapy_consts bladerf_consts ov tm ns)
qed

subsection \<open>The conversion of a transmitted block\<close>

text \<open>
  With the floating-point format active, the result of \<open>writeStream\<close> is the same for any
  two blocks of the caller, on every platform.
\<close>

lemma tx_convert_scratch_only:
  "st TxConvBuff = st' TxConvBuff \<Longrightarrow>
   tx_convert P TxConvBuff n st TxConvBuff = tx_convert P TxConvBuff n st' TxConvBuff"
proof (induction n)
  case 0
  then show ?case by (simp add: tx_convert_def)
next
  case (Suc n)
  then show ?case by (simp add: tx_convert_def)
qed

lemma writeStream_float_reads_scratch:
  "txFloats s \<Longrightarrow>
   writeStream P s buffs numElems flags timeNs timeoutUs rs =
   writeStream P s buffs' numElems flags timeNs timeoutUs rs"
proof -
  assume f: "txFloats s"
  let ?st = "\<lambda>b p. case p of Buffs0 \<Rightarrow> b | TxConvBuff \<Rightarrow> txConvBuff s"
  have eq: "tx_convert P TxConvBuff (unat (2 * numElems)) (?st buffs) TxConvBuff =
        tx_convert P TxConvBuff (unat (2 * numElems)) (?st buffs') TxConvBuff"
    by (rule tx_convert_scratch_only) simp
  then show ?thesis
    unfolding writeStream_def Let_def
    by (simp only: f if_True tx_ptr.case)
qed

lemma float_block_holds:
  "load_float ref_platform float_block 0 = F32 False 127 0"
  "load_float ref_platform float_block 1 = F32 False 126 0"
  by (simp_all add: load_float_def ref_platform_def float_block_def overlay_def f32_of_int16s_def)

lemma k2000: "f32_of_int 2000 = F32 False 137 7995392"
  by (simp add: f32_defs)

lemma float_block_expected:
  "float_to_fixed ref_platform (load_float ref_platform float_block 0) = 2000"
  "float_to_fixed ref_platform (load_float ref_platform float_block 1) = 1000"
  unfolding float_block_holds by (simp_all add: ref_platform_def float_to_fixed_f32_def k2000) (simp_all add: f32_defs)

lemma zero_converted:
  "float_to_fixed ref_platform (load_float ref_platform zero_block i) = 0"
  by (simp add: load_float_def ref_platform_def zero_block_def f32_of_int16s_def float_to_fixed_f32_def k2000)
     (simp add: f32_defs)

lemma tx_convert_zero:
  "tx_convert ref_platform TxConvBuff n (\<lambda>p. case p of Buffs0 \<Rightarrow> b | TxConvBuff \<Rightarrow> zero_block) =
     (\<lambda>p. case p of Buffs0 \<Rightarrow> b | TxConvBuff \<Rightarrow> zero_block)"
proof (induction n)
  case 0
  show ?case by (simp add: tx_convert_def)
next
  case (Suc n)
  have "(\<lambda>p. case p of Buffs0 \<Rightarrow> b | TxConvBuff \<Rightarrow> zero_block)(TxConvBuff := zero_block(n := 0)) =
        (\<lambda>p. case p of Buffs0 \<Rightarrow> b | TxConvBuff \<Rightarrow> zero_block)"
    by (auto simp: fun_eq_iff zero_block_def split: tx_ptr.splits)
  with Suc show ?case
    by (simp add: tx_convert_def zero_converted)
qed

text \<open>
  C2, on the code. With the floating-point format active, \<open>writeStream\<close> is called with a
  block that holds 1.0 and 0.5, for one element, while \<open>_txConvBuff\<close> holds zeros. The
  block handed to the device holds zeros, where the caller's components times 2000 are
  2000 and 1000: \<open>input\<close> is made from \<open>samples\<close> (line 283), which is \<open>_txConvBuff\<close> by
  then (line 278), so the loop converts \<open>_txConvBuff\<close> read as \<open>float\<close>s and never reads
  the caller's block.
\<close>

theorem float_transmit_ignores_caller:
  "writeStream ref_platform (idle\<lparr>txFloats := True\<rparr>) float_block 1 0 0 1000 (sconst (tx_answer 0 0 0)) =
     Some \<lparr>c_ret = 1, c_state = idle\<lparr>txFloats := True, inTxBurst := True\<rparr>,
           c_events = [SyncTx zero_block 1 0 5 1 0],
           c_replies = sconst (tx_answer 0 0 0)\<rparr>
   \<and> float_to_fixed ref_platform (load_float ref_platform float_block 0) = 2000
   \<and> float_to_fixed ref_platform (load_float ref_platform float_block 1) = 1000
   \<and> zero_block 0 = 0 \<and> zero_block 1 = 0"
proof -
  have tm: "ucast (c_div (1000 :: c_long) 1000) = (1 :: c_uint)"
    by (simp add: c_div_def signed_divide_int_def)
  have w: "writeStream ref_platform (idle\<lparr>txFloats := True\<rparr>) float_block 1 0 0 1000
             (sconst (tx_answer 0 0 0)) =
     Some \<lparr>c_ret = 1, c_state = idle\<lparr>txFloats := True, inTxBurst := True\<rparr>,
           c_events = [SyncTx zero_block 1 0 5 1 0],
           c_replies = sconst (tx_answer 0 0 0)\<rparr>"
    by (simp add: writeStream_def Let_def idle_def tx_convert_zero tm tx_answer_def soapy_consts
        bladerf_consts)
  from w float_block_expected show ?thesis
    by (simp add: zero_block_def)
qed

subsection \<open>The tunables of setupStream\<close>

lemma sint32_of_int:
  "- 2147483648 \<le> k \<Longrightarrow> k < 2147483648 \<Longrightarrow> sint (word_of_int k :: c_int) = k"
  by (simp add: sint_sbintrunc' signed_take_bit_int_eq_self)

lemma sint_c_div2: "sint (c_div (a :: c_int) 2) = sint a sdiv 2"
proof -
  have r: "- 2147483648 \<le> sint a" "sint a < 2147483648"
    using sint_ge [of a] sint_lt [of a] by simp_all
  have "- 2147483648 \<le> sint a sdiv 2 \<and> sint a sdiv 2 < 2147483648"
    using r by (auto simp: signed_divide_int_def sgn_if) 
  then show ?thesis
    by (simp add: c_div_def sint32_of_int)
qed

lemma bufSize_round_up:
  assumes "args ''buflen'' = Some w" and "0 < sint (atoi P w)" and "sint (atoi P w) \<le> 2147482624"
  shows "1024 dvd sint (bufSize P args) \<and> sint (atoi P w) \<le> sint (bufSize P args)
         \<and> sint (bufSize P args) < sint (atoi P w) + 1024
         \<and> (1024 dvd sint (atoi P w) \<longrightarrow> bufSize P args = atoi P w)"
proof -
  let ?b = "atoi P w"
  let ?k = "sint ?b"
  have nz: "?b \<noteq> 0" using assms(2) by auto
  have md: "?k smod 1024 = ?k mod 1024" "?k sdiv 1024 = ?k div 1024"
    using assms(2) by (simp_all add: signed_modulo_int_def signed_divide_int_def sgn_if abs_if)
  have m0: "(c_mod ?b 1024 \<noteq> 0) = (?k mod 1024 \<noteq> 0)"
  proof -
    have "0 \<le> ?k mod 1024" "?k mod 1024 < 1024" by simp_all
    then have "sint (word_of_int (?k mod 1024) :: c_int) = ?k mod 1024"
      by (intro sint32_of_int) linarith+
    then have "(word_of_int (?k mod 1024) :: c_int) = 0 \<longleftrightarrow> ?k mod 1024 = 0"
      by (metis sint_0 word_of_int_0)
    then show ?thesis by (simp add: c_mod_def md)
  qed
  have dv: "sint (c_div ?b 1024) = ?k div 1024"
  proof -
    have "0 \<le> ?k div 1024" using assms(2) by (simp add: div_int_pos_iff)
    moreover have "(?k div 1024) * 1024 \<le> ?k" by simp
    ultimately have "- 2147483648 \<le> ?k div 1024" "?k div 1024 < 2147483648"
      using assms(3) by linarith+
    then show ?thesis
      by (simp add: c_div_def md sint32_of_int)
  qed
  show ?thesis
  proof (cases "?k mod 1024 = 0")
    case True
    then have "bufSize P args = ?b" using assms(1) nz m0 by (simp add: bufSize_def Let_def)
    moreover from True have "1024 dvd ?k" by (simp add: dvd_eq_mod_eq_0)
    ultimately show ?thesis by simp
  next
    case False
    have e: "(c_div ?b 1024 + 1) * 1024 = (word_of_int ((?k div 1024 + 1) * 1024) :: c_int)"
      by (simp add: c_div_def md)
    have q0: "0 \<le> ?k div 1024 * 1024" using assms(2) by (simp add: div_int_pos_iff)
    have qr: "?k div 1024 * 1024 = ?k - ?k mod 1024"
      by (simp add: minus_mod_eq_div_mult)
    have r0: "0 < ?k mod 1024" using False by (simp add: order_less_le)
    have r1: "?k mod 1024 < 1024" by simp
    have ex: "(?k div 1024 + 1) * 1024 = ?k div 1024 * 1024 + 1024"
      by (simp add: algebra_simps)
    have "- 2147483648 \<le> (?k div 1024 + 1) * 1024"
      "(?k div 1024 + 1) * 1024 < 2147483648"
      unfolding ex using q0 qr r0 assms(3) by linarith+
    then have up: "sint ((c_div ?b 1024 + 1) * 1024) = (?k div 1024 + 1) * 1024"
      unfolding e by (rule sint32_of_int)
    from False have bs: "bufSize P args = (c_div ?b 1024 + 1) * 1024"
      using assms(1) nz m0 by (simp add: bufSize_def Let_def)
    have "1024 dvd (?k div 1024 + 1) * 1024" by simp
    moreover have "?k \<le> (?k div 1024 + 1) * 1024" "(?k div 1024 + 1) * 1024 < ?k + 1024"
      unfolding ex using qr r0 r1 by linarith+
    moreover have "\<not> 1024 dvd ?k" using False by (simp add: dvd_eq_mod_eq_0)
    ultimately show ?thesis unfolding bs up by blast
  qed
qed

lemma numXfers_value:
  "sint (numXfers P args) =
     min 32 (min (sint (numBuffs P args))
       (if (case args ''transfers'' of None \<Rightarrow> 0 | Some u \<Rightarrow> atoi P u) = 0
        then sint (numBuffs P args) sdiv 2
        else sint (case args ''transfers'' of None \<Rightarrow> 0 | Some u \<Rightarrow> atoi P u)))"
  by (auto simp: numXfers_def Let_def c_gt_def sint_c_div2 min_def split: option.splits)

text \<open>
  C8, as the code has it. A supplied buffer count of 1 becomes 2. A supplied buffer
  length from 1 to 2147482624 becomes the least multiple of 1024 that is not below it,
  and an exact multiple is unchanged. The transfer count starts from the supplied value,
  or from half the effective buffer count (truncated) when it is absent or 0; it is
  then clamped to the effective buffer count and after that to 32, all as signed
  \<open>int\<close>s. These three values are the ones \<open>bladerf_sync_config\<close> is called with.
\<close>

theorem setupStream_tunables:
  "(args ''buffers'' = Some v \<and> atoi P v = 1 \<longrightarrow> numBuffs P args = 2)
   \<and> (args ''buflen'' = Some w \<and> 0 < sint (atoi P w) \<and> sint (atoi P w) \<le> 2147482624 \<longrightarrow>
        1024 dvd sint (bufSize P args) \<and> sint (atoi P w) \<le> sint (bufSize P args)
        \<and> sint (bufSize P args) < sint (atoi P w) + 1024
        \<and> (1024 dvd sint (atoi P w) \<longrightarrow> bufSize P args = atoi P w))
   \<and> sint (numXfers P args) =
        min 32 (min (sint (numBuffs P args))
          (if (case args ''transfers'' of None \<Rightarrow> 0 | Some u \<Rightarrow> atoi P u) = 0
           then sint (numBuffs P args) sdiv 2
           else sint (case args ''transfers'' of None \<Rightarrow> 0 | Some u \<Rightarrow> atoi P u)))
   \<and> ((channels = [] \<or> channels = [0]) \<and> (format = ''CF32'' \<or> format = ''CS16'') \<longrightarrow>
        take 1 (snd (setupStream P cfg_ret en_ret s direction format channels args)) =
          [SyncConfig direction (numBuffs P args) (bufSize P args) (numXfers P args) 1000 cfg_ret])"
proof (intro conjI impI)
  assume "args ''buffers'' = Some v \<and> atoi P v = 1"
  then show "numBuffs P args = 2"
    by (simp add: numBuffs_def)
next
  assume a: "args ''buflen'' = Some w \<and> 0 < sint (atoi P w) \<and> sint (atoi P w) \<le> 2147482624"
  from a bufSize_round_up [of args w P] show "1024 dvd sint (bufSize P args)" by blast
  from a bufSize_round_up [of args w P] show "sint (atoi P w) \<le> sint (bufSize P args)" by blast
  from a bufSize_round_up [of args w P] show "sint (bufSize P args) < sint (atoi P w) + 1024" by blast
next
  assume a: "args ''buflen'' = Some w \<and> 0 < sint (atoi P w) \<and> sint (atoi P w) \<le> 2147482624"
    and d: "1024 dvd sint (atoi P w)"
  from a d bufSize_round_up [of args w P] show "bufSize P args = atoi P w"
    by blast
next
  show "sint (numXfers P args) =
        min 32 (min (sint (numBuffs P args))
          (if (case args ''transfers'' of None \<Rightarrow> 0 | Some u \<Rightarrow> atoi P u) = 0
           then sint (numBuffs P args) sdiv 2
           else sint (case args ''transfers'' of None \<Rightarrow> 0 | Some u \<Rightarrow> atoi P u)))"
    by (rule numXfers_value)
next
  assume "(channels = [] \<or> channels = [0]) \<and> (format = ''CF32'' \<or> format = ''CS16'')"
  then show "take 1 (snd (setupStream P cfg_ret en_ret s direction format channels args)) =
          [SyncConfig direction (numBuffs P args) (bufSize P args) (numXfers P args) 1000 cfg_ret]"
    by (auto simp: setupStream_def Let_def)
qed

lemma atoi_examples:
  "atoi ref_platform ''0'' = 0" "atoi ref_platform ''1'' = 1" "atoi ref_platform ''100'' = 100"
  "atoi ref_platform ''-5'' = - 5"
  by (simp_all add: ref_platform_def atoi_c_def is_space_def is_digit_def)

theorem setupStream_tunables_witness:
  "numBuffs ref_platform [''buffers'' \<mapsto> ''1'', ''buflen'' \<mapsto> ''100'', ''transfers'' \<mapsto> ''0''] = 2
   \<and> bufSize ref_platform [''buffers'' \<mapsto> ''1'', ''buflen'' \<mapsto> ''100'', ''transfers'' \<mapsto> ''0''] = 1024
   \<and> numXfers ref_platform [''buffers'' \<mapsto> ''1'', ''buflen'' \<mapsto> ''100'', ''transfers'' \<mapsto> ''0''] = 1
   \<and> take 1 (snd (setupStream ref_platform 0 0 idle SOAPY_SDR_RX ''CF32'' [0]
         [''buffers'' \<mapsto> ''1'', ''buflen'' \<mapsto> ''100'', ''transfers'' \<mapsto> ''0''])) =
       [SyncConfig SOAPY_SDR_RX 2 1024 1 1000 0]
   \<and> bufSize ref_platform [''buflen'' \<mapsto> ''1024''] = 1024"
proof -
  let ?args = "[''buffers'' \<mapsto> ''1'', ''buflen'' \<mapsto> ''100'', ''transfers'' \<mapsto> ''0'']"
  have l: "?args ''buffers'' = Some ''1''" "?args ''buflen'' = Some ''100''"
    "?args ''transfers'' = Some ''0''"
    by simp_all
  have bs: "bufSize ref_platform ?args = 1024"
    by (simp add: bufSize_def atoi_examples c_mod_def c_div_def signed_modulo_int_def
        signed_divide_int_def)
  have nx: "numXfers ref_platform ?args = 1"
    by (simp add: numXfers_def numBuffs_def atoi_examples c_div_def c_gt_def signed_divide_int_def)
  have k: "atoi ref_platform ''1024'' = 1024"
    by (simp add: ref_platform_def atoi_c_def is_space_def is_digit_def)
  from setupStream_tunables [of "[''buflen'' \<mapsto> ''1024'']" "''1''" ref_platform "''1024''"]
  have bs': "bufSize ref_platform [''buflen'' \<mapsto> ''1024''] = 1024"
    by (simp add: k)
  from setupStream_tunables [of ?args "''1''" ref_platform "''100''" "[0]" "''CF32''" 0 0 idle
      SOAPY_SDR_RX] l
  show ?thesis by (simp add: atoi_examples bs nx bs')
qed

text \<open>
  C8 as stated fails where no transfer count is given and the buffer count is the
  default: the device is configured with 32 transfers, not with half of the 4096
  buffers. It also fails for the buffer length -5, which becomes 1024 and not 0, the
  next multiple of 1024.
\<close>

theorem setupStream_tunables_counterexample:
  "take 1 (snd (setupStream ref_platform 0 0 idle SOAPY_SDR_RX ''CS16'' [] [''buflen'' \<mapsto> ''-5''])) =
     [SyncConfig SOAPY_SDR_RX 4096 1024 32 1000 0]
   \<and> atoi ref_platform ''-5'' = - 5"
proof -
  let ?args = "[''buflen'' \<mapsto> ''-5'']"
  have nb: "numBuffs ref_platform ?args = 4096"
    by (simp add: numBuffs_def DEF_BUFF_LEN_def)
  have bs: "bufSize ref_platform ?args = 1024"
    by (simp add: bufSize_def atoi_examples c_mod_def c_div_def signed_modulo_int_def
        signed_divide_int_def)
  have nx: "numXfers ref_platform ?args = 32"
    by (simp add: numXfers_def nb c_div_def c_gt_def signed_divide_int_def)
  show ?thesis
    by (simp add: setupStream_def Let_def nb bs nx atoi_examples)
qed

subsection \<open>The round trip of the two sample conversions\<close>

text \<open>
  The round trip is evaluated for each value from -250 to 250, in four ranges and at
  -1, 0 and 1.
\<close>

lemmas f32_eval =
  f32_div_def f32_mul_def f32_of_int_def
  f32_round_def f32_round_at_def f32_carry_def f32_fields_def ilog2_ratio_def ilog2_adjust_def
  f32_mant_def f32_scale_def int16_of_f32_def round_half_even_def round_pick_def f32_is_nan_def
  f32_scaled_def f32_trunc_def bit_length.simps f32_nan_def

lemmas f32_conversions = float_to_fixed_f32_def fixed_to_float_f32_def k2000

lemma round_trip_low:
  "\<forall>k\<in>set [2..125]. float_to_fixed_f32 (fixed_to_float_f32 (word_of_int k)) = word_of_int k"
  apply (simp del: set_upto)
  apply (simp only: f32_conversions)
  apply (simp add: f32_eval)
  done

lemma round_trip_high:
  "\<forall>k\<in>set [126..250]. float_to_fixed_f32 (fixed_to_float_f32 (word_of_int k)) = word_of_int k"
  apply (simp del: set_upto)
  apply (simp only: f32_conversions)
  apply (simp add: f32_eval)
  done

lemma round_trip_neg_low:
  "\<forall>k\<in>set [- 125..- 2]. float_to_fixed_f32 (fixed_to_float_f32 (word_of_int k)) = word_of_int k"
  apply (simp del: set_upto)
  apply (simp only: f32_conversions)
  apply (simp add: f32_eval)
  done

lemma round_trip_neg_high:
  "\<forall>k\<in>set [- 250..- 126]. float_to_fixed_f32 (fixed_to_float_f32 (word_of_int k)) = word_of_int k"
  apply (simp del: set_upto)
  apply (simp only: f32_conversions)
  apply (simp add: f32_eval)
  done

lemma round_trip_unit:
  "float_to_fixed_f32 (fixed_to_float_f32 (word_of_int (- 1))) = word_of_int (- 1)"
  "float_to_fixed_f32 (fixed_to_float_f32 (word_of_int 0)) = word_of_int 0"
  "float_to_fixed_f32 (fixed_to_float_f32 (word_of_int 1)) = word_of_int 1"
  by (simp_all only: f32_conversions) (simp_all add: f32_eval)

lemma round_trip_int:
  assumes "- 250 \<le> k" "k \<le> 250"
  shows "float_to_fixed_f32 (fixed_to_float_f32 (word_of_int k)) = word_of_int k"
proof -
  consider "k \<in> {- 250..- 126}" | "k \<in> {- 125..- 2}" | "k = - 1" | "k = 0" | "k = 1"
    | "k \<in> {2..125}" | "k \<in> {126..250}"
    using assms by fastforce
  then show ?thesis
  proof cases
    case 1 then show ?thesis using round_trip_neg_high [unfolded set_upto] by blast
  next
    case 2 then show ?thesis using round_trip_neg_low [unfolded set_upto] by blast
  next
    case 3 then show ?thesis using round_trip_unit(1) by simp
  next
    case 4 then show ?thesis using round_trip_unit(2) by simp
  next
    case 5 then show ?thesis using round_trip_unit(3) by simp
  next
    case 6 then show ?thesis using round_trip_low [unfolded set_upto] by blast
  next
    case 7 then show ?thesis using round_trip_high [unfolded set_upto] by blast
  qed
qed

text \<open>
  C9, as the code has it. For every fixed-point value \<open>v\<close> from -250 to 250, converting
  \<open>v\<close> to \<open>float\<close> by the division by 2000 of the receive path and back by the
  multiplication by 2000 and the truncation of the transmit path gives \<open>v\<close> again.
\<close>

theorem fixed_float_round_trip:
  "- 250 \<le> sint v \<Longrightarrow> sint v \<le> 250 \<Longrightarrow>
   float_to_fixed ref_platform (fixed_to_float ref_platform v) = v"
  using round_trip_int [of "sint v"] by (simp add: ref_platform_def)

theorem fixed_float_round_trip_witness:
  "- 250 \<le> sint (250 :: c_int16) \<and> sint (250 :: c_int16) \<le> 250
   \<and> float_to_fixed ref_platform (fixed_to_float ref_platform 250) = 250
   \<and> - 250 \<le> sint (- 250 :: c_int16) \<and> sint (- 250 :: c_int16) \<le> 250
   \<and> float_to_fixed ref_platform (fixed_to_float ref_platform (- 250)) = - 250"
  using fixed_float_round_trip [of 250] fixed_float_round_trip [of "- 250"] by simp

text \<open>
  C9 as stated fails at 251, far from the ends of the range: 251/2000 rounds to a
  \<open>float\<close> below 0.1255, its product with 2000 rounds to 250.99998, and the truncation
  gives 250.
\<close>

theorem fixed_float_round_trip_counterexample:
  "fixed_to_float ref_platform 251 = F32 False 124 33554
   \<and> f32_mul (F32 False 124 33554) (f32_of_int 2000) = F32 False 134 8060927
   \<and> float_to_fixed ref_platform (fixed_to_float ref_platform 251) = 250"
proof -
  have a: "fixed_to_float_f32 251 = F32 False 124 33554"
    by (simp only: f32_conversions) (simp add: f32_eval)
  have b: "f32_mul (F32 False 124 33554) (f32_of_int 2000) = F32 False 134 8060927"
    by (simp only: k2000) (simp add: f32_eval)
  have c: "int16_of_f32 (F32 False 134 8060927) = 250"
    by (simp add: f32_eval)
  show ?thesis
    by (simp add: ref_platform_def a float_to_fixed_f32_def b c)
qed

end
